theory Spec2Isabelle
  imports Complex_Main "HOL-Library.AList" "HOL-Library.Sublist"
begin

section \<open>Python values and exceptions\<close>

text \<open>
  The exceptions that the code of \<^verbatim>\<open>movie_repository/infra/fetch.py\<close> can meet.
  \<open>ClientError\<close> is a transport failure of aiohttp, \<open>PyMongoError\<close> a failure reported
  by the MongoDB driver, \<open>JSONDecodeError\<close> a body that is not JSON.
\<close>

datatype error =
    ValueError
  | TypeError
  | KeyError
  | IndexError
  | AttributeError
  | OverflowError
  | JSONDecodeError
  | ClientError
  | PyMongoError

text \<open>
  A Python float: a finite value (kept as the exact rational; rounding to a double is not
  modelled), the two infinities, or not-a-number.
\<close>

datatype pyfloat = Finite rat | PosInf | NegInf | NaN

text \<open>The values that \<^verbatim>\<open>json.loads\<close> and \<^verbatim>\<open>response.json()\<close> produce.\<close>

datatype pyval =
    PyNone
  | PyBool bool
  | PyInt int
  | PyFloat pyfloat
  | PyStr string
  | PyList "pyval list"
  | PyDict "(string \<times> pyval) list"

text \<open>
  The builtin \<^verbatim>\<open>float(value)\<close>. The grammar of float literals is the parameter \<open>parse\<close>
  (\<open>None\<close>: the string is not a float literal, and \<^verbatim>\<open>float\<close> raises ValueError).
  A value that is neither a number nor a string raises TypeError, an integer beyond the
  range of a double raises OverflowError.
\<close>

fun float_builtin :: "(string \<Rightarrow> pyfloat option) \<Rightarrow> pyval \<Rightarrow> error + pyfloat" where
  "float_builtin parse (PyFloat f) = Inr f"
| "float_builtin parse (PyInt n) =
     (if \<bar>n\<bar> \<ge> 2 ^ 1024 - 2 ^ 970 then Inl OverflowError else Inr (Finite (of_int n)))"
| "float_builtin parse (PyBool b) = Inr (Finite (if b then 1 else 0))"
| "float_builtin parse (PyStr s) =
     (case parse s of Some f \<Rightarrow> Inr f | None \<Rightarrow> Inl ValueError)"
| "float_builtin parse PyNone = Inl TypeError"
| "float_builtin parse (PyList xs) = Inl TypeError"
| "float_builtin parse (PyDict kvs) = Inl TypeError"

text \<open>
  \<^verbatim>\<open>
  def safe_float_conversion(value, default=-1.0):
      try:
          return float(value)
      except ValueError:
          return default
  \<close>
  Only ValueError is caught; every other exception of \<^verbatim>\<open>float\<close> leaves the function.
\<close>

definition safe_float_conversion ::
  "(string \<Rightarrow> pyfloat option) \<Rightarrow> pyval \<Rightarrow> pyfloat \<Rightarrow> error + pyfloat" where
  "safe_float_conversion parse val dflt =
     (case float_builtin parse val of
        Inr f \<Rightarrow> Inr f
      | Inl ValueError \<Rightarrow> Inr dflt
      | Inl e \<Rightarrow> Inl e)"

text \<open>The value of the parameter \<^verbatim>\<open>default\<close> (\<open>dflt\<close> here) when the caller passes none, \<^verbatim>\<open>-1.0\<close>.\<close>

definition sentinel :: pyfloat where
  "sentinel = Finite (- 1)"

section \<open>Operations on Python values\<close>

text \<open>
  \<^verbatim>\<open>key in obj\<close> for a string \<open>key\<close>: a key of a dict, an element of a list, a substring
  of a string; every other value is not iterable.
\<close>

fun py_contains :: "string \<Rightarrow> pyval \<Rightarrow> error + bool" where
  "py_contains key (PyDict kvs) = Inr (key \<in> set (map fst kvs))"
| "py_contains key (PyList xs) = Inr (PyStr key \<in> set xs)"
| "py_contains key (PyStr s) = Inr (sublist key s)"
| "py_contains key v = Inl TypeError"

text \<open>
  A subscript: a string key or an integer index. \<^verbatim>\<open>obj[key]\<close> raises KeyError on a dict
  without the key, IndexError on a sequence that is too short, and TypeError where the
  value does not take that kind of subscript. A dict holds its pairs in insertion order,
  with distinct keys.
\<close>

datatype subscript = Key string | Index int

text \<open>
  The position that an index denotes in a sequence of the given length: an index from 0
  counts from the front, a negative one from the back (\<open>-1\<close> is the last element);
  \<open>None\<close> when the index lies outside the sequence.
\<close>

definition seq_position :: "nat \<Rightarrow> int \<Rightarrow> nat option" where
  "seq_position len i =
     (if 0 \<le> i \<and> i < int len then Some (nat i)
      else if i < 0 \<and> - int len \<le> i then Some (nat (int len + i))
      else None)"

fun py_getitem :: "pyval \<Rightarrow> subscript \<Rightarrow> error + pyval" where
  "py_getitem (PyDict kvs) (Key k) =
     (case map_of kvs k of Some v \<Rightarrow> Inr v | None \<Rightarrow> Inl KeyError)"
| "py_getitem (PyDict kvs) (Index i) = Inl KeyError"
| "py_getitem (PyList xs) (Index i) =
     (case seq_position (length xs) i of Some j \<Rightarrow> Inr (xs ! j) | None \<Rightarrow> Inl IndexError)"
| "py_getitem (PyStr s) (Index i) =
     (case seq_position (length s) i of Some j \<Rightarrow> Inr (PyStr [s ! j]) | None \<Rightarrow> Inl IndexError)"
| "py_getitem v sub = Inl TypeError"

text \<open>\<^verbatim>\<open>obj[s1][s2]...\<close>, from left to right.\<close>

fun py_path :: "pyval \<Rightarrow> subscript list \<Rightarrow> error + pyval" where
  "py_path obj [] = Inr obj"
| "py_path obj (s # ss) =
     (case py_getitem obj s of Inl e \<Rightarrow> Inl e | Inr v \<Rightarrow> py_path v ss)"

text \<open>
  \<^verbatim>\<open>obj.get(key, default)\<close>: the value under the key of a dict, or the default when the
  dict has no such key; a value that is not a dict has no \<^verbatim>\<open>get\<close>.
\<close>

fun py_get :: "pyval \<Rightarrow> string \<Rightarrow> pyval \<Rightarrow> error + pyval" where
  "py_get (PyDict kvs) key dflt = Inr (case map_of kvs key of Some v \<Rightarrow> v | None \<Rightarrow> dflt)"
| "py_get obj key dflt = Inl AttributeError"

text \<open>\<^verbatim>\<open>obj[key] = v\<close>: only a dict takes the assignment of a string key.\<close>

fun py_setitem :: "pyval \<Rightarrow> string \<Rightarrow> pyval \<Rightarrow> error + pyval" where
  "py_setitem (PyDict kvs) key v = Inr (PyDict (AList.update key v kvs))"
| "py_setitem obj key v = Inl TypeError"

text \<open>
  \<^verbatim>\<open>obj[k1]...[kn] = v\<close>: the inner objects are looked up, the last one is changed in
  place; as a value, the outer object with the changed inner object in it.
\<close>

fun py_setpath :: "pyval \<Rightarrow> string list \<Rightarrow> pyval \<Rightarrow> error + pyval" where
  "py_setpath obj [] v = Inr v"
| "py_setpath obj [k] v = py_setitem obj k v"
| "py_setpath obj (k # ks) v =
     (case py_getitem obj (Key k) of
        Inl e \<Rightarrow> Inl e
      | Inr inner \<Rightarrow>
          (case py_setpath inner ks v of
             Inl e \<Rightarrow> Inl e
           | Inr inner' \<Rightarrow> py_setitem obj k inner'))"

text \<open>
  \<^verbatim>\<open>for item in obj\<close>: the elements of a list, the keys of a dict, the characters of a
  string.
\<close>

fun py_iter :: "pyval \<Rightarrow> error + pyval list" where
  "py_iter (PyList xs) = Inr xs"
| "py_iter (PyDict kvs) = Inr (map (\<lambda>kv. PyStr (fst kv)) kvs)"
| "py_iter (PyStr s) = Inr (map (\<lambda>c. PyStr [c]) s)"
| "py_iter v = Inl TypeError"

text \<open>\<^verbatim>\<open>str(n)\<close> for an integer: its decimal digits.\<close>

fun nat_digits :: "nat \<Rightarrow> string" where
  "nat_digits n =
     (if n < 10 then [''0123456789'' ! n]
      else nat_digits (n div 10) @ [''0123456789'' ! (n mod 10)])"

declare nat_digits.simps [simp del]

definition str_int :: "int \<Rightarrow> string" where
  "str_int i = (if i < 0 then CHR ''-'' # nat_digits (nat (- i)) else nat_digits (nat i))"

text \<open>
  \<^verbatim>\<open>str(v)\<close>. The text of a float, a list or a dict is Python's \<^verbatim>\<open>repr\<close>, which is the
  parameter \<open>repr\<close>.
\<close>

fun py_str :: "(pyval \<Rightarrow> string) \<Rightarrow> pyval \<Rightarrow> string" where
  "py_str repr (PyStr s) = s"
| "py_str repr (PyInt n) = str_int n"
| "py_str repr (PyBool b) = (if b then ''True'' else ''False'')"
| "py_str repr PyNone = ''None''"
| "py_str repr v = repr v"

text \<open>\<^verbatim>\<open>v != 0\<close>: a number is compared by its value (\<^verbatim>\<open>False\<close> is 0, \<^verbatim>\<open>True\<close> is 1), every
  other value differs from 0.\<close>

fun py_ne_zero :: "pyval \<Rightarrow> bool" where
  "py_ne_zero (PyInt n) = (n \<noteq> 0)"
| "py_ne_zero (PyBool b) = b"
| "py_ne_zero (PyFloat (Finite q)) = (q \<noteq> 0)"
| "py_ne_zero v = True"

text \<open>
  \<^verbatim>\<open>await asyncio.gather(*tasks)\<close>, without \<^verbatim>\<open>return_exceptions\<close>: the results of the
  tasks in their order when every task succeeds; when a task raises, its exception is
  raised to the caller and no result is returned. Of several failing tasks asyncio
  raises the exception of the one that fails first in time; the model takes the first
  in the order of the tasks.
\<close>

fun gather :: "(error + 'a) list \<Rightarrow> error + 'a list" where
  "gather [] = Inr []"
| "gather (t # ts) =
     (case t of
        Inl e \<Rightarrow> Inl e
      | Inr v \<Rightarrow> (case gather ts of Inl e \<Rightarrow> Inl e | Inr vs \<Rightarrow> Inr (v # vs)))"

text \<open>
  Two statements in sequence, where the first may raise: its exception ends the
  sequence, its value is handed to the second.
\<close>

definition then_do :: "error + 'a \<Rightarrow> ('a \<Rightarrow> error + 'b) \<Rightarrow> error + 'b" where
  "then_do m f = (case m of Inl e \<Rightarrow> Inl e | Inr v \<Rightarrow> f v)"

text \<open>
  A loop or comprehension that computes one value per element, in order: the values, or
  the exception of the first element whose computation raises.
\<close>

fun for_each :: "('a \<Rightarrow> error + 'b) \<Rightarrow> 'a list \<Rightarrow> error + 'b list" where
  "for_each f [] = Inr []"
| "for_each f (x # xs) =
     (case f x of
        Inl e \<Rightarrow> Inl e
      | Inr v \<Rightarrow> (case for_each f xs of Inl e \<Rightarrow> Inl e | Inr vs \<Rightarrow> Inr (v # vs)))"

section \<open>The trace recorder, the key generator and the storage sink\<close>

text \<open>\<^verbatim>\<open>warmup.Status\<close>: the two members the orchestrator uses.\<close>

datatype Status = PENDING | FINISHED

text \<open>
  A task id: the category it was generated in and its serial number there.
\<close>

type_synonym task_id = "string \<times> nat"

text \<open>
  One call of \<^verbatim>\<open>put_batch_trace\<close> or \<^verbatim>\<open>put_db_trace\<close>, with the keyword arguments the
  orchestrator passes: \<^verbatim>\<open>task_id\<close>, \<^verbatim>\<open>source\<close> (named \<^verbatim>\<open>platform\<close> in the calls of
  \<^verbatim>\<open>put_db_trace\<close>), \<^verbatim>\<open>batch\<close>, \<^verbatim>\<open>pagesize\<close>, \<^verbatim>\<open>status\<close>, \<^verbatim>\<open>begin\<close> and \<^verbatim>\<open>end\<close>.
  \<open>end_time\<close> is \<open>None\<close> when the call passes no \<^verbatim>\<open>end\<close>.
  Timestamps are the strings \<^verbatim>\<open>datetime.now().strftime('%Y-%m-%d %H%M%S.%f')[:-3]\<close>; the
  format has a fixed width, so a string is modelled by the number of milliseconds it
  denotes.
\<close>

record trace =
  task_id :: task_id
  source :: string
  batch :: int
  pagesize :: int
  status :: Status
  begin_time :: nat
  end_time :: "nat option"

text \<open>
  What a run of the orchestrator can read and change: the time elapsed (in
  microseconds), the serial numbers issued by \<^verbatim>\<open>generate_key\<close> per category, the two
  logs of the \<^verbatim>\<open>WarmupHandler\<close>, the calls of \<^verbatim>\<open>collection.insert_many\<close> with their
  argument, the documents stored in the collection, the seconds spent in
  \<^verbatim>\<open>asyncio.sleep\<close>, and in \<open>shared\<close> everything a source adapter's fetch works on (its class
  attributes and the snapshot cache). Time passes while a call is awaited: \<open>clock\<close> is
  only ever increased. What \<^verbatim>\<open>datetime.now()\<close> returns is another matter: it is the naive
  local time of the host, which is set back at the end of daylight saving time and
  whenever the host's clock is corrected. \<open>local_time\<close> gives for every instant the local
  time of the host then (in microseconds), and nothing is assumed of it.
\<close>

record 'x world =
  clock :: nat
  local_time :: "nat \<Rightarrow> nat"
  issued :: "string \<Rightarrow> nat"
  batch_trace :: "trace list"
  db_trace :: "trace list"
  insert_calls :: "pyval list list"
  collection :: "pyval list"
  slept :: nat
  shared :: 'x

text \<open>
  Modelled from the spec: \<^verbatim>\<open>warmup.generate_key\<close> is not among the sources. The spec's
  key generator returns a value distinct from every other value it has returned in the
  category: here the next serial number of the category.
\<close>

definition generate_key :: "string \<Rightarrow> 'x world \<Rightarrow> task_id \<times> 'x world" where
  "generate_key category w =
     ((category, issued w category),
      w\<lparr>issued := (issued w)(category := Suc (issued w category))\<rparr>)"

text \<open>
  Modelled from the spec: \<^verbatim>\<open>WarmupHandler.put_batch_trace\<close> and \<^verbatim>\<open>put_db_trace\<close> are not
  among the sources. The spec's recorder appends an immutable event on each call and
  neither looks up nor changes an earlier one; the source treats it as never failing.
\<close>

definition put_batch_trace :: "trace \<Rightarrow> 'x world \<Rightarrow> 'x world" where
  "put_batch_trace ev w = w\<lparr>batch_trace := batch_trace w @ [ev]\<rparr>"

definition put_db_trace :: "trace \<Rightarrow> 'x world \<Rightarrow> 'x world" where
  "put_db_trace ev w = w\<lparr>db_trace := db_trace w @ [ev]\<rparr>"

text \<open>
  \<^verbatim>\<open>datetime.now().strftime(time_formatter)[:-3]\<close>: the local time of the host at the
  instant of the call; the six digits of the microseconds lose their last three.
\<close>

definition timestamp :: "'x world \<Rightarrow> nat" where
  "timestamp w = local_time w (clock w) div 1000"

text \<open>
  The awaited fetch of an adapter, \<^verbatim>\<open>async_func()\<close>: from the state it works on it
  returns the entities or raises, leaves a new state, and takes some time (in
  microseconds). It has neither the collection nor the trace logs in its hands.
\<close>

type_synonym ('e, 'x) fetch = "'x \<Rightarrow> (error + 'e list) \<times> 'x \<times> nat"

definition await_fetch ::
  "('e, 'x) fetch \<Rightarrow> 'x world \<Rightarrow> (error + 'e list) \<times> 'x world" where
  "await_fetch async_func w =
     (case async_func (shared w) of
        (r, x, d) \<Rightarrow> (r, w\<lparr>clock := clock w + d, shared := x\<rparr>))"

text \<open>
  The storage sink behind \<^verbatim>\<open>collection.insert_many(documents)\<close>. The driver is outside
  the repository: its answer to a call (an acknowledgement, \<open>None\<close>, or the exception it
  raises) and the time the call takes are given by \<open>sink\<close>, from the stored documents
  and the argument. An acknowledged call appends the documents (the spec's sink is
  append-only and does not deduplicate); what a failed call leaves in the collection is
  not modelled, the collection stays as it was.
\<close>

type_synonym sink = "pyval list \<Rightarrow> pyval list \<Rightarrow> error option \<times> nat"

definition insert_many ::
  "sink \<Rightarrow> pyval list \<Rightarrow> 'x world \<Rightarrow> (error + unit) \<times> 'x world" where
  "insert_many sink documents w =
     (case sink (collection w) documents of
        (None, d) \<Rightarrow>
          (Inr (), w\<lparr>clock := clock w + d,
                     insert_calls := insert_calls w @ [documents],
                     collection := collection w @ documents\<rparr>)
      | (Some e, d) \<Rightarrow>
          (Inl e, w\<lparr>clock := clock w + d,
                    insert_calls := insert_calls w @ [documents]\<rparr>))"

text \<open>
  \<^verbatim>\<open>pymongo\<close>'s \<^verbatim>\<open>insert_many\<close> (which Motor's \<^verbatim>\<open>AsyncIOMotorCollection\<close> wraps) refuses an
  empty list of documents with TypeError (\<^verbatim>\<open>documents must be a non-empty list\<close>); this
  sink does that and acknowledges every other call, in \<open>d\<close> microseconds.
\<close>

definition motor_sink :: "nat \<Rightarrow> sink" where
  "motor_sink d stored documents = (if documents = [] then (Some TypeError, d) else (None, d))"

text \<open>\<^verbatim>\<open>await asyncio.sleep(n)\<close>, \<open>n\<close> in seconds.\<close>

definition sleep :: "nat \<Rightarrow> 'x world \<Rightarrow> 'x world" where
  "sleep n w = w\<lparr>clock := clock w + n * 1000000, slept := slept w + n\<rparr>"

section \<open>The orchestrator\<close>

text \<open>
  \<^verbatim>\<open>abstract_run_with_checkpoint(platform, collection, page, pagesize, warmup, async_func)\<close>.
  The result is the value the call returns (the list \<^verbatim>\<open>documents\<close>) or the exception that
  leaves it (\<open>Inl e\<close>), and the world after the call. \<^verbatim>\<open>dataclasses.asdict\<close> is the parameter
  \<open>asdict\<close>, since \<^verbatim>\<open>MovieEntity\<close> is declared outside the sources. The calls of the logger
  are left out.
\<close>

definition abstract_run_with_checkpoint ::
  "string \<Rightarrow> sink \<Rightarrow> int \<Rightarrow> int \<Rightarrow> ('e \<Rightarrow> pyval) \<Rightarrow> ('e, 'x) fetch \<Rightarrow> 'x world
     \<Rightarrow> (error + pyval) \<times> 'x world" where
  "abstract_run_with_checkpoint platform sink page psize asdict async_func w =
     (let (batch_task_id, w1) = generate_key ''BATCH.TASK'' w;
          batch_begin_time = timestamp w1;
          w2 = put_batch_trace
                 \<lparr>task_id = batch_task_id, source = platform, batch = page, pagesize = psize,
                  status = PENDING, begin_time = batch_begin_time, end_time = None\<rparr> w1
      in case await_fetch async_func w2 of
           (Inl e, w3) \<Rightarrow> (Inl e, w3)
         | (Inr batch_results, w3) \<Rightarrow>
             (let w4 = put_batch_trace
                         \<lparr>task_id = batch_task_id, source = platform, batch = page,
                          pagesize = psize, status = FINISHED,
                          begin_time = batch_begin_time, end_time = Some (timestamp w3)\<rparr> w3;
                  documents = map asdict batch_results;
                  (db_task_id, w5) = generate_key ''DB.TASK'' w4;
                  db_begin_time = timestamp w5;
                  w6 = put_db_trace
                         \<lparr>task_id = db_task_id, source = platform, batch = page,
                          pagesize = psize, status = PENDING,
                          begin_time = db_begin_time, end_time = None\<rparr> w5
              in case insert_many sink documents w6 of
                   (Inl e, w7) \<Rightarrow> (Inl e, w7)
                 | (Inr u, w7) \<Rightarrow>
                     (let w8 = put_db_trace
                                 \<lparr>task_id = db_task_id, source = platform, batch = page,
                                  pagesize = psize, status = FINISHED,
                                  begin_time = db_begin_time,
                                  end_time = Some (timestamp w7)\<rparr> w7;
                          w9 = sleep 1 w8
                      in (Inr (PyList documents), w9))))"

section \<open>The source adapters\<close>

text \<open>
  Three classes have a fetch: \<^verbatim>\<open>Bilibili\<close>, \<^verbatim>\<open>Tencent\<close> and \<^verbatim>\<open>IQiYi\<close>. The classes
  \<^verbatim>\<open>YouKu\<close> and \<^verbatim>\<open>DouBan\<close> declare attributes only.
\<close>

text \<open>
  The reply of a source to a request: its HTTP status, and what reading the body as JSON
  gives (\<^verbatim>\<open>await response.json()\<close>, or \<^verbatim>\<open>json.loads(await response.text())\<close>): the value,
  or the exception raised.
\<close>

record response =
  http_status :: int
  body :: "error + pyval"

text \<open>
  The state the adapters share between calls: the class attributes \<^verbatim>\<open>Bilibili.params\<close>,
  \<^verbatim>\<open>Tencent.payload\<close> and \<^verbatim>\<open>IQiYi.params\<close>, and the snapshot cache.
\<close>

record shared_state =
  bilibili_params :: "(string \<times> pyval) list"
  tencent_payload :: pyval
  iqiyi_params :: "(string \<times> pyval) list"
  snapshots :: "((string \<times> int) \<times> (int \<times> pyval)) list"

text \<open>
  Modelled from the spec: \<^verbatim>\<open>init_config.write_in\<close> is not among the sources. The spec's
  snapshot cache keeps the raw reply per source and page; a repeated capture for the
  same key overwrites the earlier one.
\<close>

definition write_in :: "string \<Rightarrow> int \<Rightarrow> int \<Rightarrow> pyval \<Rightarrow> shared_state \<Rightarrow> shared_state" where
  "write_in platform page psize json_object x =
     x\<lparr>snapshots := AList.update (platform, page) (psize, json_object) (snapshots x)\<rparr>"

subsection \<open>Bilibili\<close>

text \<open>The class attributes \<^verbatim>\<open>Bilibili.pagesize\<close> and \<^verbatim>\<open>Bilibili.params\<close> as the class body sets them.\<close>

definition Bilibili_pagesize :: int where
  "Bilibili_pagesize = 60"

definition Bilibili_params :: "(string \<times> pyval) list" where
  "Bilibili_params =
     [(''area'', PyInt (- 1)), (''style_id'', PyInt (- 1)), (''release_date'', PyInt (- 1)),
      (''season_status'', PyInt (- 1)), (''order'', PyInt 2), (''st'', PyInt 2),
      (''season_type'', PyInt 2), (''sort'', PyInt 0), (''page'', PyInt 0),
      (''pagesize'', PyInt 0), (''type'', PyInt 1)]"

text \<open>
  The argument \<^verbatim>\<open>score=safe_float_conversion(item.get('score', ''), -1.0)\<close> of the
  constructor call in \<^verbatim>\<open>Bilibili.create_movie_entity\<close>.
\<close>

definition Bilibili_score :: "(string \<Rightarrow> pyfloat option) \<Rightarrow> pyval \<Rightarrow> error + pyfloat" where
  "Bilibili_score parse item =
     (case py_get item ''score'' (PyStr []) of
        Inl e \<Rightarrow> Inl e
      | Inr v \<Rightarrow> safe_float_conversion parse v (Finite (- 1)))"

text \<open>
  What the constructor call of \<^verbatim>\<open>Bilibili.create_movie_entity\<close> reads off the item and its
  parameters, in the order of its keyword arguments: \<^verbatim>\<open>item['title']\<close>, \<^verbatim>\<open>item['cover']\<close>,
  \<^verbatim>\<open>item.get('subTitle', '')\<close>, the score, the actors, \<^verbatim>\<open>item['index_show']\<close>, and for the
  metadata \<^verbatim>\<open>eq_id\<close>, \<^verbatim>\<open>item['order']\<close> and \<^verbatim>\<open>item['link']\<close>.
\<close>

record Bilibili_fields =
  b_title :: pyval
  b_cover :: pyval
  b_subTitle :: pyval
  b_score :: pyfloat
  b_actors :: "string list"
  b_index_show :: pyval
  b_eq_id :: string
  b_order :: pyval
  b_link :: pyval

text \<open>
  \<^verbatim>\<open>Bilibili.create_movie_entity(item, eq_id)\<close>: the sub-request \<^verbatim>\<open>fetch_actors(eq_id)\<close>
  is awaited, then the arguments of the constructor call are evaluated in their order,
  the first that raises ending the call. \<open>fetch_actors\<close> is the outcome of the
  sub-request: the request, whose status is not looked at, and the scraping of the page
  by lxml. \<open>entity\<close> builds the \<^verbatim>\<open>MovieEntity\<close>, a dataclass declared outside the sources,
  from the values read: the texts of the release date and of the order,
  \<^verbatim>\<open>str(...).removesuffix(...)\<close> of the values read, and the construction do not raise.
\<close>

definition Bilibili_create_movie_entity ::
  "(string \<Rightarrow> pyfloat option) \<Rightarrow> (string \<Rightarrow> error + string list) \<Rightarrow> (Bilibili_fields \<Rightarrow> 'e)
     \<Rightarrow> pyval \<Rightarrow> string \<Rightarrow> error + 'e" where
  "Bilibili_create_movie_entity parse fetch_actors entity item eq_id =
     then_do (fetch_actors eq_id) (\<lambda>actors.
     then_do (py_getitem item (Key ''title'')) (\<lambda>title.
     then_do (py_getitem item (Key ''cover'')) (\<lambda>cover.
     then_do (py_get item ''subTitle'' (PyStr [])) (\<lambda>intro.
     then_do (Bilibili_score parse item) (\<lambda>score.
     then_do (py_getitem item (Key ''index_show'')) (\<lambda>index_show.
     then_do (py_getitem item (Key ''order'')) (\<lambda>order.
     then_do (py_getitem item (Key ''link'')) (\<lambda>link.
       Inr (entity
         \<lparr>b_title = title, b_cover = cover, b_subTitle = intro, b_score = score,
          b_actors = actors, b_index_show = index_show, b_eq_id = eq_id, b_order = order,
          b_link = link\<rparr>)))))))))"

text \<open>
  The loop of \<^verbatim>\<open>handle_data\<close>: for each item, \<^verbatim>\<open>eq_id = str(item['first_ep']['ep_id'])\<close>
  and the task \<^verbatim>\<open>create_movie_entity(item, eq_id)\<close>. An item without the field ends the
  loop with its exception.
\<close>

fun Bilibili_tasks ::
  "(pyval \<Rightarrow> string) \<Rightarrow> (string \<Rightarrow> pyfloat option)
     \<Rightarrow> (string \<Rightarrow> error + string list)
     \<Rightarrow> (Bilibili_fields \<Rightarrow> 'e) \<Rightarrow> pyval list
     \<Rightarrow> error + (error + 'e) list" where
  "Bilibili_tasks repr parse fetch_actors entity [] = Inr []"
| "Bilibili_tasks repr parse fetch_actors entity (item # items) =
     (case py_path item [Key ''first_ep'', Key ''ep_id''] of
        Inl e \<Rightarrow> Inl e
      | Inr ep_id \<Rightarrow>
          (case Bilibili_tasks repr parse fetch_actors entity items of
             Inl e \<Rightarrow> Inl e
           | Inr tasks \<Rightarrow>
               Inr (Bilibili_create_movie_entity parse fetch_actors entity item (py_str repr ep_id)
                    # tasks)))"

text \<open>\<^verbatim>\<open>Bilibili.handle_data(raw_film_data)\<close>.\<close>

definition Bilibili_handle_data ::
  "(pyval \<Rightarrow> string) \<Rightarrow> (string \<Rightarrow> pyfloat option)
     \<Rightarrow> (string \<Rightarrow> error + string list)
     \<Rightarrow> (Bilibili_fields \<Rightarrow> 'e) \<Rightarrow> pyval \<Rightarrow> error + 'e list" where
  "Bilibili_handle_data repr parse fetch_actors entity raw_film_data =
     (case py_contains ''data'' raw_film_data of
        Inl e \<Rightarrow> Inl e
      | Inr False \<Rightarrow> Inr []
      | Inr True \<Rightarrow>
          (case py_getitem raw_film_data (Key ''data'') of
             Inl e \<Rightarrow> Inl e
           | Inr data_film_data \<Rightarrow>
               (case py_contains ''list'' data_film_data of
                  Inl e \<Rightarrow> Inl e
                | Inr False \<Rightarrow> Inr []
                | Inr True \<Rightarrow>
                    (case py_getitem data_film_data (Key ''list'') of
                       Inl e \<Rightarrow> Inl e
                     | Inr film_data \<Rightarrow>
                         (case py_iter film_data of
                            Inl e \<Rightarrow> Inl e
                          | Inr items \<Rightarrow>
                              (case Bilibili_tasks repr parse fetch_actors entity items of
                                 Inl e \<Rightarrow> Inl e
                               | Inr tasks \<Rightarrow> gather tasks))))))"

text \<open>
  The two assignments at the head of \<^verbatim>\<open>Bilibili.raw_fetch_async\<close>, on the shared dict:
  \<^verbatim>\<open>Bilibili.params['page'] = page\<close> and \<^verbatim>\<open>Bilibili.params['pagesize'] = Bilibili.pagesize\<close>.
\<close>

definition Bilibili_set_page :: "int \<Rightarrow> (string \<times> pyval) list \<Rightarrow> (string \<times> pyval) list" where
  "Bilibili_set_page page params =
     AList.update ''pagesize'' (PyInt Bilibili_pagesize) (AList.update ''page'' (PyInt page) params)"

text \<open>
  \<^verbatim>\<open>Bilibili.raw_fetch_async(warmup, page)\<close>. \<open>get\<close> is the source's reply to the request
  with the given query parameters, or the exception of the transport.
\<close>

definition Bilibili_raw_fetch_async ::
  "((string \<times> pyval) list \<Rightarrow> error + response) \<Rightarrow> (pyval \<Rightarrow> string)
     \<Rightarrow> (string \<Rightarrow> pyfloat option) \<Rightarrow> (string \<Rightarrow> error + string list)
     \<Rightarrow> (Bilibili_fields \<Rightarrow> 'e) \<Rightarrow> int \<Rightarrow> shared_state
     \<Rightarrow> (error + 'e list) \<times> shared_state" where
  "Bilibili_raw_fetch_async get repr parse fetch_actors entity page x =
     (let x1 = x\<lparr>bilibili_params := Bilibili_set_page page (bilibili_params x)\<rparr>
      in case get (bilibili_params x1) of
           Inl e \<Rightarrow> (Inl e, x1)
         | Inr response \<Rightarrow>
             if http_status response = 200 then
               (case body response of
                  Inl e \<Rightarrow> (Inl e, x1)
                | Inr json_object \<Rightarrow>
                    (Bilibili_handle_data repr parse fetch_actors entity json_object,
                     write_in ''bilibili'' page Bilibili_pagesize json_object x1))
             else (Inr [], x1))"

text \<open>
  \<^verbatim>\<open>Bilibili.run_async(warmup, collection, page)\<close>. \<open>elapsed\<close> is the time the fetch takes.
\<close>

definition Bilibili_run_async ::
  "((string \<times> pyval) list \<Rightarrow> error + response) \<Rightarrow> (pyval \<Rightarrow> string)
     \<Rightarrow> (string \<Rightarrow> pyfloat option) \<Rightarrow> (string \<Rightarrow> error + string list)
     \<Rightarrow> (Bilibili_fields \<Rightarrow> 'e) \<Rightarrow> nat \<Rightarrow> sink \<Rightarrow> ('e \<Rightarrow> pyval)
     \<Rightarrow> int \<Rightarrow> shared_state world \<Rightarrow> (error + pyval) \<times> shared_state world" where
  "Bilibili_run_async get repr parse fetch_actors entity elapsed sink asdict page w =
     abstract_run_with_checkpoint ''bilibili'' sink page Bilibili_pagesize asdict
       (\<lambda>x. case Bilibili_raw_fetch_async get repr parse fetch_actors entity page x of
               (r, x') \<Rightarrow> (r, x', elapsed)) w"

subsection \<open>Tencent\<close>

text \<open>The class attributes \<^verbatim>\<open>Tencent.pagesize\<close> and \<^verbatim>\<open>Tencent.payload\<close>.\<close>

definition Tencent_pagesize :: int where
  "Tencent_pagesize = 30"

definition Tencent_payload :: pyval where
  "Tencent_payload =
     PyDict
      [(''page_context'', PyDict [(''page_index'', PyStr ''1'')]),
       (''page_params'',
        PyDict
         [(''page_id'', PyStr ''channel_list_second_page''),
          (''page_type'', PyStr ''operation''),
          (''channel_id'', PyStr ''100173''),
          (''filter_params'', PyStr []),
          (''page'', PyStr ''1''),
          (''new_mark_label_enabled'', PyStr ''1'')]),
       (''page_bypass_params'',
        PyDict
         [(''params'',
           PyDict
            [(''page_id'', PyStr ''channel_list_second_page''),
             (''page_type'', PyStr ''operation''),
             (''channel_id'', PyStr ''100173''),
             (''filter_params'', PyStr []),
             (''page'', PyStr ''1''),
             (''caller_id'', PyStr ''3000010''),
             (''platform_id'', PyStr ''2''),
             (''data_mode'', PyStr ''default''),
             (''user_mode'', PyStr ''default'')]),
          (''scene'', PyStr ''operation''),
          (''abtest_bypass_id'', PyStr ''747ad9f34a4c8887'')])]"

text \<open>
  The three assignments at the head of \<^verbatim>\<open>Tencent.get_movies\<close>, on the shared payload:
  the exception of the first one that fails, if any, and the payload as the assignments
  before it left it.
\<close>

definition Tencent_set_page :: "int \<Rightarrow> pyval \<Rightarrow> error option \<times> pyval" where
  "Tencent_set_page page payload =
     (case py_setpath payload [''page_context'', ''page_index''] (PyStr (str_int page)) of
        Inl e \<Rightarrow> (Some e, payload)
      | Inr p1 \<Rightarrow>
          (case py_setpath p1 [''page_params'', ''page''] (PyStr (str_int page)) of
             Inl e \<Rightarrow> (Some e, p1)
           | Inr p2 \<Rightarrow>
               (case py_setpath p2 [''page_bypass_params'', ''params'', ''page'']
                       (PyStr (str_int page)) of
                  Inl e \<Rightarrow> (Some e, p2)
                | Inr p3 \<Rightarrow> (None, p3))))"

text \<open>
  \<^verbatim>\<open>cards = json_object["data"]["CardList"][1]["children_list"]["list"]["cards"]\<close>, and on
  IndexError the same with \<^verbatim>\<open>[0]\<close>.
\<close>

definition Tencent_cards :: "pyval \<Rightarrow> error + pyval" where
  "Tencent_cards json_object =
     (case py_path json_object
             [Key ''data'', Key ''CardList'', Index 1, Key ''children_list'', Key ''list'',
              Key ''cards''] of
        Inl IndexError \<Rightarrow>
          py_path json_object
            [Key ''data'', Key ''CardList'', Index 0, Key ''children_list'', Key ''list'',
             Key ''cards'']
      | Inl e \<Rightarrow> Inl e
      | Inr cards \<Rightarrow> Inr cards)"

text \<open>
  The tasks \<^verbatim>\<open>Tencent.get_movie_detail(session, item["params"]["cid"], item)\<close>, one per
  card. \<open>get_movie_detail\<close> is the outcome of that call, the enrichment sub-request of a
  card: it requests the cover page, cuts the page state out of it with a regular
  expression and builds the entity from it.
\<close>

fun Tencent_tasks ::
  "(pyval \<Rightarrow> pyval \<Rightarrow> error + 'e) \<Rightarrow> pyval list \<Rightarrow> error + (error + 'e) list" where
  "Tencent_tasks get_movie_detail [] = Inr []"
| "Tencent_tasks get_movie_detail (item # items) =
     (case py_path item [Key ''params'', Key ''cid''] of
        Inl e \<Rightarrow> Inl e
      | Inr cid \<Rightarrow>
          (case Tencent_tasks get_movie_detail items of
             Inl e \<Rightarrow> Inl e
           | Inr tasks \<Rightarrow> Inr (get_movie_detail cid item # tasks)))"

text \<open>
  \<^verbatim>\<open>Tencent.get_movies\<close> from the check of \<^verbatim>\<open>json_object["ret"]\<close> on. The message of the
  ValueError reads \<^verbatim>\<open>json_object['msg']\<close>.
\<close>

definition Tencent_handle_reply ::
  "(pyval \<Rightarrow> pyval \<Rightarrow> error + 'e) \<Rightarrow> pyval \<Rightarrow> error + 'e list" where
  "Tencent_handle_reply get_movie_detail json_object =
     (case py_getitem json_object (Key ''ret'') of
        Inl e \<Rightarrow> Inl e
      | Inr ret \<Rightarrow>
          if py_ne_zero ret then
            (case py_getitem json_object (Key ''msg'') of
               Inl e \<Rightarrow> Inl e
             | Inr msg \<Rightarrow> Inl ValueError)
          else
            (case Tencent_cards json_object of
               Inl e \<Rightarrow> Inl e
             | Inr cards \<Rightarrow>
                 (case py_iter cards of
                    Inl e \<Rightarrow> Inl e
                  | Inr items \<Rightarrow>
                      (case Tencent_tasks get_movie_detail items of
                         Inl e \<Rightarrow> Inl e
                       | Inr tasks \<Rightarrow> gather tasks))))"

text \<open>
  \<^verbatim>\<open>Tencent.get_movies(warmup, session, page)\<close>, which \<^verbatim>\<open>Tencent.raw_fetch_async\<close> calls in a
  new session. \<open>post\<close> is the source's reply to the request with the given payload.
\<close>

definition Tencent_get_movies ::
  "(pyval \<Rightarrow> error + response) \<Rightarrow> (pyval \<Rightarrow> pyval \<Rightarrow> error + 'e) \<Rightarrow> int \<Rightarrow> shared_state
     \<Rightarrow> (error + 'e list) \<times> shared_state" where
  "Tencent_get_movies post get_movie_detail page x =
     (case Tencent_set_page page (tencent_payload x) of
        (Some e, p) \<Rightarrow> (Inl e, x\<lparr>tencent_payload := p\<rparr>)
      | (None, p) \<Rightarrow>
          (let x1 = x\<lparr>tencent_payload := p\<rparr>
           in case post (tencent_payload x1) of
                Inl e \<Rightarrow> (Inl e, x1)
              | Inr response \<Rightarrow>
                  (case body response of
                     Inl e \<Rightarrow> (Inl e, x1)
                   | Inr json_object \<Rightarrow>
                       (Tencent_handle_reply get_movie_detail json_object,
                        write_in ''tencent'' page 30 json_object x1))))"

definition Tencent_raw_fetch_async ::
  "(pyval \<Rightarrow> error + response) \<Rightarrow> (pyval \<Rightarrow> pyval \<Rightarrow> error + 'e) \<Rightarrow> int \<Rightarrow> shared_state
     \<Rightarrow> (error + 'e list) \<times> shared_state" where
  "Tencent_raw_fetch_async post get_movie_detail page x =
     Tencent_get_movies post get_movie_detail page x"

definition Tencent_run_async ::
  "(pyval \<Rightarrow> error + response) \<Rightarrow> (pyval \<Rightarrow> pyval \<Rightarrow> error + 'e) \<Rightarrow> nat \<Rightarrow> sink
     \<Rightarrow> ('e \<Rightarrow> pyval) \<Rightarrow> int \<Rightarrow> shared_state world \<Rightarrow> (error + pyval) \<times> shared_state world" where
  "Tencent_run_async post get_movie_detail elapsed sink asdict page w =
     abstract_run_with_checkpoint ''tencent'' sink page Tencent_pagesize asdict
       (\<lambda>x. case Tencent_raw_fetch_async post get_movie_detail page x of
               (r, x') \<Rightarrow> (r, x', elapsed)) w"

subsection \<open>IQiYi\<close>

definition IQiYi_pagesize :: int where
  "IQiYi_pagesize = 24"

definition IQiYi_params :: "(string \<times> pyval) list" where
  "IQiYi_params =
     [(''ret_num'', PyStr ''60''), (''channel_id'', PyStr ''1''), (''page_id'', PyStr ''0'')]"

text \<open>
  The argument \<^verbatim>\<open>score=safe_float_conversion(data.get('sns_score', ''))\<close> of the
  constructor call in \<^verbatim>\<open>IQiYi.raw_fetch_async\<close>.
\<close>

definition IQiYi_score :: "(string \<Rightarrow> pyfloat option) \<Rightarrow> pyval \<Rightarrow> error + pyfloat" where
  "IQiYi_score parse data =
     (case py_get data ''sns_score'' (PyStr []) of
        Inl e \<Rightarrow> Inl e
      | Inr v \<Rightarrow> safe_float_conversion parse v sentinel)"

text \<open>The comprehension \<^verbatim>\<open>[x['name'] for x in data[key]]\<close>.\<close>

definition IQiYi_names :: "pyval \<Rightarrow> string \<Rightarrow> error + pyval list" where
  "IQiYi_names data key =
     then_do (py_getitem data (Key key)) (\<lambda>people.
     then_do (py_iter people) (\<lambda>xs.
       for_each (\<lambda>x. py_getitem x (Key ''name'')) xs))"

text \<open>
  What the constructor call of \<^verbatim>\<open>IQiYi.raw_fetch_async\<close> reads off one item, in the order
  of its keyword arguments: the title, the cover, the names of the directors and of the
  actors, year, month and day of the date, the description, the score,
  \<^verbatim>\<open>data.get('tag', '')\<close>, and the five ids of the metadata.
\<close>

record IQiYi_fields =
  q_title :: pyval
  q_album_image_url_hover :: pyval
  q_creator :: "pyval list"
  q_contributor :: "pyval list"
  q_year :: pyval
  q_month :: pyval
  q_day :: pyval
  q_description :: pyval
  q_score :: pyfloat
  q_tag :: pyval
  q_uploader_id :: pyval
  q_order :: pyval
  q_entity_id :: pyval
  q_album_id :: pyval
  q_tv_id :: pyval

text \<open>
  The constructor call \<^verbatim>\<open>MovieEntity(...)\<close> of \<^verbatim>\<open>IQiYi.raw_fetch_async\<close> on one item: its
  arguments are evaluated in their order, the first that raises ending the call.
  \<open>entity\<close> builds the \<^verbatim>\<open>MovieEntity\<close> from the values read: the formatting of the date, the
  splitting of the tags and the construction do not raise.
\<close>

definition IQiYi_movie_entity ::
  "(string \<Rightarrow> pyfloat option) \<Rightarrow> (IQiYi_fields \<Rightarrow> 'e) \<Rightarrow> pyval \<Rightarrow> error + 'e" where
  "IQiYi_movie_entity parse entity data =
     then_do (py_getitem data (Key ''title'')) (\<lambda>title.
     then_do (py_getitem data (Key ''album_image_url_hover'')) (\<lambda>cover.
     then_do (IQiYi_names data ''creator'') (\<lambda>directors.
     then_do (IQiYi_names data ''contributor'') (\<lambda>actors.
     then_do (py_path data [Key ''date'', Key ''year'']) (\<lambda>year.
     then_do (py_path data [Key ''date'', Key ''month'']) (\<lambda>month.
     then_do (py_path data [Key ''date'', Key ''day'']) (\<lambda>day.
     then_do (py_getitem data (Key ''description'')) (\<lambda>description.
     then_do (IQiYi_score parse data) (\<lambda>score.
     then_do (py_get data ''tag'' (PyStr [])) (\<lambda>tag.
     then_do (py_getitem data (Key ''uploader_id'')) (\<lambda>uploader_id.
     then_do (py_getitem data (Key ''order'')) (\<lambda>order.
     then_do (py_getitem data (Key ''entity_id'')) (\<lambda>entity_id.
     then_do (py_getitem data (Key ''album_id'')) (\<lambda>album_id.
     then_do (py_getitem data (Key ''tv_id'')) (\<lambda>tv_id.
       Inr (entity
         \<lparr>q_title = title, q_album_image_url_hover = cover, q_creator = directors,
          q_contributor = actors, q_year = year, q_month = month, q_day = day,
          q_description = description, q_score = score, q_tag = tag,
          q_uploader_id = uploader_id, q_order = order, q_entity_id = entity_id,
          q_album_id = album_id, q_tv_id = tv_id\<rparr>))))))))))))))))"

text \<open>The assignment \<^verbatim>\<open>IQiYi.params['page_id'] = str(page)\<close>, on the shared dict.\<close>

definition IQiYi_set_page :: "int \<Rightarrow> (string \<times> pyval) list \<Rightarrow> (string \<times> pyval) list" where
  "IQiYi_set_page page params = AList.update ''page_id'' (PyStr (str_int page)) params"

text \<open>
  \<^verbatim>\<open>IQiYi.raw_fetch_async(warmup, page)\<close>: the loop
  \<^verbatim>\<open>for data in results: result.append(MovieEntity(...))\<close> gives the entities in order, or
  the exception of the first item whose constructor call raises.
\<close>

definition IQiYi_raw_fetch_async ::
  "((string \<times> pyval) list \<Rightarrow> error + response) \<Rightarrow> (string \<Rightarrow> pyfloat option)
     \<Rightarrow> (IQiYi_fields \<Rightarrow> 'e) \<Rightarrow> int \<Rightarrow> shared_state \<Rightarrow> (error + 'e list) \<times> shared_state" where
  "IQiYi_raw_fetch_async get parse entity page x =
     (let x1 = x\<lparr>iqiyi_params := IQiYi_set_page page (iqiyi_params x)\<rparr>
      in case get (iqiyi_params x1) of
           Inl e \<Rightarrow> (Inl e, x1)
         | Inr response \<Rightarrow>
             (case body response of
                Inl e \<Rightarrow> (Inl e, x1)
              | Inr json_object \<Rightarrow>
                  (case py_getitem json_object (Key ''data'') of
                     Inl e \<Rightarrow> Inl e
                   | Inr results \<Rightarrow>
                       (case py_iter results of
                          Inl e \<Rightarrow> Inl e
                        | Inr items \<Rightarrow> for_each (IQiYi_movie_entity parse entity) items),
                   write_in ''iqiyi'' page 30 json_object x1)))"

definition IQiYi_run_async ::
  "((string \<times> pyval) list \<Rightarrow> error + response) \<Rightarrow> (string \<Rightarrow> pyfloat option)
     \<Rightarrow> (IQiYi_fields \<Rightarrow> 'e) \<Rightarrow> nat \<Rightarrow> sink \<Rightarrow> ('e \<Rightarrow> pyval) \<Rightarrow> int \<Rightarrow> shared_state world
     \<Rightarrow> (error + pyval) \<times> shared_state world" where
  "IQiYi_run_async get parse entity elapsed sink asdict page w =
     abstract_run_with_checkpoint ''iqiyi'' sink page IQiYi_pagesize asdict
       (\<lambda>x. case IQiYi_raw_fetch_async get parse entity page x of
               (r, x') \<Rightarrow> (r, x', elapsed)) w"

section \<open>Vocabulary of the statements\<close>

text \<open>
  The events of one task in a sequence of events, in the order of their recording.
\<close>

definition events_of :: "task_id \<Rightarrow> trace list \<Rightarrow> trace list" where
  "events_of k evs = filter (\<lambda>ev. task_id ev = k) evs"

text \<open>
  Every task id in the logs was issued by the key generator: its serial number lies
  below the next one of its category. The empty logs satisfy this, and a run keeps it.
\<close>

definition keys_fresh :: "'x world \<Rightarrow> bool" where
  "keys_fresh w =
     (\<forall>ev \<in> set (batch_trace w) \<union> set (db_trace w). snd (task_id ev) < issued w (fst (task_id ev)))"

text \<open>
  The task ids a run allocates: those issued between the world before it and the world
  after it.
\<close>

definition allocated :: "'x world \<Rightarrow> 'x world \<Rightarrow> task_id \<Rightarrow> bool" where
  "allocated w w' k = (issued w (fst k) \<le> snd k \<and> snd k < issued w' (fst k))"

text \<open>
  The life of one task as its events tell it: a PENDING event with no end, and then
  nothing more, or one FINISHED event with the same begin and with an end.
\<close>

fun lifecycle :: "trace list \<Rightarrow> bool" where
  "lifecycle [p] = (status p = PENDING \<and> end_time p = None)"
| "lifecycle [p, f] =
     (status p = PENDING \<and> end_time p = None \<and>
      status f = FINISHED \<and> begin_time f = begin_time p \<and> end_time f \<noteq> None)"
| "lifecycle evs = False"

text \<open>The same reply of a source, with another HTTP status.\<close>

definition with_status :: "int \<Rightarrow> error + response \<Rightarrow> error + response" where
  "with_status s reply = (case reply of Inl e \<Rightarrow> Inl e | Inr r \<Rightarrow> Inr (r\<lparr>http_status := s\<rparr>))"

text \<open>
  An enrichment sub-request of a Bilibili fetch fails: the source answers the call for
  the page with status 200 and a list of items, and for one of them the task
  \<^verbatim>\<open>create_movie_entity(item, eq_id)\<close> raises, as it does when its \<^verbatim>\<open>fetch_actors\<close> raises.
\<close>

definition Bilibili_enrichment_fails ::
  "((string \<times> pyval) list \<Rightarrow> error + response) \<Rightarrow> (pyval \<Rightarrow> string)
     \<Rightarrow> (string \<Rightarrow> pyfloat option) \<Rightarrow> (string \<Rightarrow> error + string list)
     \<Rightarrow> (Bilibili_fields \<Rightarrow> 'e) \<Rightarrow> int \<Rightarrow> shared_state \<Rightarrow> bool" where
  "Bilibili_enrichment_fails get repr parse fetch_actors entity page x =
     (case get (Bilibili_set_page page (bilibili_params x)) of
        Inl e \<Rightarrow> False
      | Inr reply \<Rightarrow>
          http_status reply = 200 \<and>
          (case body reply of
             Inl e \<Rightarrow> False
           | Inr json_object \<Rightarrow>
               (case py_path json_object [Key ''data'', Key ''list''] of
                  Inr (PyList items) \<Rightarrow>
                    list_ex
                      (\<lambda>item.
                         case py_path item [Key ''first_ep'', Key ''ep_id''] of
                           Inl e \<Rightarrow> False
                         | Inr ep_id \<Rightarrow>
                             isl (Bilibili_create_movie_entity parse fetch_actors entity item
                                    (py_str repr ep_id)))
                      items
                | other \<Rightarrow> False)))"

text \<open>
  An enrichment sub-request of a Tencent fetch fails: the source answers the call for
  the page with return code 0 and a list of cards, and for one of them the task
  \<^verbatim>\<open>get_movie_detail(session, cid, item)\<close> raises.
\<close>

definition Tencent_enrichment_fails ::
  "(pyval \<Rightarrow> error + response) \<Rightarrow> (pyval \<Rightarrow> pyval \<Rightarrow> error + 'e) \<Rightarrow> int \<Rightarrow> shared_state \<Rightarrow> bool" where
  "Tencent_enrichment_fails post get_movie_detail page x =
     (case Tencent_set_page page (tencent_payload x) of
        (Some e, payload) \<Rightarrow> False
      | (None, payload) \<Rightarrow>
          (case post payload of
             Inl e \<Rightarrow> False
           | Inr reply \<Rightarrow>
               (case body reply of
                  Inl e \<Rightarrow> False
                | Inr json_object \<Rightarrow>
                    (case py_getitem json_object (Key ''ret'') of
                       Inl e \<Rightarrow> False
                     | Inr ret \<Rightarrow>
                         \<not> py_ne_zero ret \<and>
                         (case Tencent_cards json_object of
                            Inr (PyList items) \<Rightarrow>
                              list_ex
                                (\<lambda>item.
                                   case py_path item [Key ''params'', Key ''cid''] of
                                     Inl e \<Rightarrow> False
                                   | Inr cid \<Rightarrow> isl (get_movie_detail cid item))
                                items
                          | other \<Rightarrow> False)))))"

section \<open>Concrete scenarios\<close>

text \<open>The shared state when the module is loaded, with an empty snapshot cache.\<close>

definition initial_shared :: shared_state where
  "initial_shared =
     \<lparr>bilibili_params = Bilibili_params, tencent_payload = Tencent_payload,
      iqiyi_params = IQiYi_params, snapshots = []\<rparr>"

text \<open>A world in which nothing has happened yet.\<close>

definition initial_world :: "'x \<Rightarrow> 'x world" where
  "initial_world x =
     \<lparr>clock = 0, local_time = (\<lambda>t. t), issued = (\<lambda>category. 0), batch_trace = [],
      db_trace = [], insert_calls = [], collection = [], slept = 0, shared = x\<rparr>"

text \<open>
  Stubbed adapters, with film titles for entities: one returns two films, one returns
  none, one fails in the transport; each takes 1500 microseconds. A film is flattened
  to a record with its title.
\<close>

definition film_asdict :: "string \<Rightarrow> pyval" where
  "film_asdict t = PyDict [(''title'', PyStr t)]"

definition two_films :: "(string, unit) fetch" where
  "two_films x = (Inr [''Alpha'', ''Beta''], x, 1500)"

definition no_films :: "(string, unit) fetch" where
  "no_films x = (Inr [], x, 1500)"

definition fetch_fails :: "(string, unit) fetch" where
  "fetch_fails x = (Inl ClientError, x, 1500)"

text \<open>
  Stubbed sinks: one acknowledges every call, one fails every call; each takes 700
  microseconds.
\<close>

definition sink_acks :: sink where
  "sink_acks stored documents = (None, 700)"

definition sink_down :: sink where
  "sink_down stored documents = (Some PyMongoError, 700)"

text \<open>The runs of the orchestrator on these stubs, from the initial world.\<close>

definition run_on_two_films :: "sink \<Rightarrow> (error + pyval) \<times> unit world" where
  "run_on_two_films sink =
     abstract_run_with_checkpoint ''bilibili'' sink 1 60 film_asdict two_films (initial_world ())"

definition run_on_no_films :: "sink \<Rightarrow> (error + pyval) \<times> unit world" where
  "run_on_no_films sink =
     abstract_run_with_checkpoint ''bilibili'' sink 5 60 film_asdict no_films (initial_world ())"

definition run_on_failed_fetch :: "(error + pyval) \<times> unit world" where
  "run_on_failed_fetch =
     abstract_run_with_checkpoint ''bilibili'' sink_acks 3 60 film_asdict fetch_fails
       (initial_world ())"

text \<open>
  A host whose local time is set back by one hour (the end of daylight saving time) one
  millisecond after the start: before that instant the local clock is an hour ahead.
  The run of the orchestrator on the two films, with the sink that acknowledges, on
  that host.
\<close>

definition fall_back :: "nat \<Rightarrow> nat" where
  "fall_back t = (if t < 1000 then t + 3600000000 else t)"

definition run_over_fall_back :: "(error + pyval) \<times> unit world" where
  "run_over_fall_back =
     abstract_run_with_checkpoint ''bilibili'' sink_acks 1 60 film_asdict two_films
       ((initial_world ())\<lparr>local_time := fall_back\<rparr>)"

text \<open>
  A Bilibili source that answers every request with two items, whose first episodes are
  7 and 8, and one that answers every request with status 500. The page of the actors
  of episode 8 cannot be fetched. The entity built from an item is its episode id. The
  items carry no score, so that the only text given to \<^verbatim>\<open>float\<close> is the empty one, which
  is no float literal.
\<close>

definition film_item :: "int \<Rightarrow> pyval" where
  "film_item n =
     PyDict [(''title'', PyStr ''Alpha''), (''cover'', PyStr ''alpha.png''),
             (''index_show'', PyStr ''2020''), (''order'', PyStr ''12''),
             (''link'', PyStr ''alpha.html''), (''first_ep'', PyDict [(''ep_id'', PyInt n)])]"

definition bilibili_page :: "(string \<times> pyval) list \<Rightarrow> error + response" where
  "bilibili_page query =
     Inr \<lparr>http_status = 200,
          body = Inr (PyDict [(''code'', PyInt 0),
                              (''data'', PyDict [(''list'', PyList [film_item 7, film_item 8])])])\<rparr>"

definition bilibili_down :: "(string \<times> pyval) list \<Rightarrow> error + response" where
  "bilibili_down query = Inr \<lparr>http_status = 500, body = Inl JSONDecodeError\<rparr>"

definition no_repr :: "pyval \<Rightarrow> string" where
  "no_repr v = []"

definition actors_but_8 :: "string \<Rightarrow> error + string list" where
  "actors_but_8 eq_id = (if eq_id = ''8'' then Inl ClientError else Inr [''Ada''])"

definition film_entity :: "Bilibili_fields \<Rightarrow> string" where
  "film_entity item = b_eq_id item"

definition no_parse :: "string \<Rightarrow> pyfloat option" where
  "no_parse s = None"

text \<open>
  A Tencent source that answers every request with return code 0 and two cards, in a
  card list of one element, and one that answers every request with return code 1001.
  The cover page of the card \<^verbatim>\<open>b2\<close> has no page state, so that its
  \<^verbatim>\<open>re.findall(...)[0]\<close> raises IndexError.
\<close>

definition tencent_card :: "string \<Rightarrow> pyval" where
  "tencent_card cid = PyDict [(''params'', PyDict [(''cid'', PyStr cid), (''title'', PyStr ''Alpha'')])]"

definition tencent_page :: "pyval \<Rightarrow> error + response" where
  "tencent_page payload =
     Inr \<lparr>http_status = 200,
          body = Inr (PyDict
            [(''ret'', PyInt 0),
             (''data'', PyDict
                [(''CardList'', PyList
                    [PyDict [(''children_list'', PyDict
                       [(''list'', PyDict
                          [(''cards'', PyList [tencent_card ''a1'', tencent_card ''b2''])])])]])])])\<rparr>"

definition tencent_refused :: "pyval \<Rightarrow> error + response" where
  "tencent_refused payload =
     Inr \<lparr>http_status = 200,
          body = Inr (PyDict [(''ret'', PyInt 1001), (''msg'', PyStr ''refused'')])\<rparr>"

definition detail_but_b2 :: "pyval \<Rightarrow> pyval \<Rightarrow> error + string" where
  "detail_but_b2 cid item = (if cid = PyStr ''b2'' then Inl IndexError else Inr ''film'')"

section \<open>The score coercion\<close>

lemma safe_float_conversion_str:
  "safe_float_conversion parse (PyStr s) d = Inr (case parse s of Some f \<Rightarrow> f | None \<Rightarrow> d)"
  by (simp add: safe_float_conversion_def split: option.split)

lemma safe_float_conversion_number:
  "safe_float_conversion parse (PyFloat f) d = Inr f"
  "safe_float_conversion parse (PyBool b) d = Inr (Finite (if b then 1 else 0))"
  by (simp_all add: safe_float_conversion_def)

lemma safe_float_conversion_sentinel:
  assumes "parse s = None"
  shows "safe_float_conversion parse (PyStr s) sentinel = Inr (Finite (- 1))"
  using assms by (simp add: safe_float_conversion_str sentinel_def)

lemma safe_float_conversion_container_raises:
  "safe_float_conversion parse (PyList xs) d = Inl TypeError"
  "safe_float_conversion parse (PyDict kvs) d = Inl TypeError"
  by (simp_all add: safe_float_conversion_def)

text \<open>
  An item whose score is the JSON \<^verbatim>\<open>null\<close> reaches the conversion as \<^verbatim>\<open>None\<close>, and
  the argument of the constructor call raises. An item without a score reaches it as
  the empty string.
\<close>

lemma Bilibili_score_null_raises:
  assumes "map_of kvs ''score'' = Some PyNone"
  shows "Bilibili_score parse (PyDict kvs) = Inl TypeError"
  using assms by (simp add: Bilibili_score_def safe_float_conversion_def)

lemma IQiYi_score_null_raises:
  assumes "map_of kvs ''sns_score'' = Some PyNone"
  shows "IQiYi_score parse (PyDict kvs) = Inl TypeError"
  using assms by (simp add: IQiYi_score_def safe_float_conversion_def)

lemma score_missing:
  assumes "map_of kvs ''score'' = None"
  shows "Bilibili_score parse (PyDict kvs) =
           Inr (case parse [] of Some f \<Rightarrow> f | None \<Rightarrow> Finite (- 1))"
  using assms by (simp add: Bilibili_score_def safe_float_conversion_str)

text \<open>
  Such an item makes its task of the Bilibili fetch raise, when the arguments before the
  score can be read; a loop ends with the exception of an element that raises, or with
  that of an earlier one.
\<close>

lemma null_score_fails_task:
  assumes "fetch_actors eq_id = Inr actors"
      and "map_of kvs ''title'' = Some title" and "map_of kvs ''cover'' = Some cover"
      and "map_of kvs ''score'' = Some PyNone"
  shows "Bilibili_create_movie_entity parse fetch_actors entity (PyDict kvs) eq_id = Inl TypeError"
  using assms Bilibili_score_null_raises [of kvs parse]
  by (simp add: Bilibili_create_movie_entity_def then_do_def)

lemma for_each_fails:
  assumes "x \<in> set xs" and "f x = Inl e"
  shows "\<exists>e'. for_each f xs = Inl e'"
  using assms by (induction xs) (auto split: sum.splits)

text \<open>
  C7. The claim: the score coercion never raises, and returns the sentinel for every
  input that is not a number, a missing value such as \<^verbatim>\<open>None\<close> included. The docstring
  of the function says the same (the default is returned when the conversion fails).
  On \<^verbatim>\<open>None\<close>, which \<^verbatim>\<open>item.get('score', '')\<close> delivers for a JSON \<^verbatim>\<open>null\<close>, the
  conversion fails with TypeError, which the \<^verbatim>\<open>except ValueError\<close> clause does not
  catch: the call raises, whatever the default and the grammar of literals are.
\<close>

theorem safe_float_conversion_none_raises:
  "safe_float_conversion parse PyNone dflt = Inl TypeError"
  by (simp add: safe_float_conversion_def)

section \<open>Runs of the orchestrator\<close>

lemmas run_defs = abstract_run_with_checkpoint_def generate_key_def timestamp_def
  put_batch_trace_def put_db_trace_def await_fetch_def insert_many_def sleep_def Let_def

text \<open>
  A run ends in one of three ways: the fetch raises, the sink raises, or both succeed.
  In each case the world after the run is the world before it with the following
  changes.
\<close>

lemma run_fetch_error:
  assumes "async_func (shared w) = (Inl e, x, d)"
  shows "abstract_run_with_checkpoint platform sink page psize asdict async_func w =
     (Inl e,
      w\<lparr>clock := clock w + d,
        issued := (issued w)(''BATCH.TASK'' := Suc (issued w ''BATCH.TASK'')),
        batch_trace := batch_trace w @
          [\<lparr>task_id = (''BATCH.TASK'', issued w ''BATCH.TASK''), source = platform,
            batch = page, pagesize = psize, status = PENDING,
            begin_time = local_time w (clock w) div 1000, end_time = None\<rparr>],
        shared := x\<rparr>)"
  using assms by (simp add: run_defs)

lemma run_sink_error:
  assumes "async_func (shared w) = (Inr es, x, d1)"
      and "sink (collection w) (map asdict es) = (Some e, d2)"
  shows "abstract_run_with_checkpoint platform sink page psize asdict async_func w =
     (Inl e,
      w\<lparr>clock := clock w + d1 + d2,
        issued := (issued w)(''BATCH.TASK'' := Suc (issued w ''BATCH.TASK''),
                             ''DB.TASK'' := Suc (issued w ''DB.TASK'')),
        batch_trace := batch_trace w @
          [\<lparr>task_id = (''BATCH.TASK'', issued w ''BATCH.TASK''), source = platform,
            batch = page, pagesize = psize, status = PENDING,
            begin_time = local_time w (clock w) div 1000, end_time = None\<rparr>,
           \<lparr>task_id = (''BATCH.TASK'', issued w ''BATCH.TASK''), source = platform,
            batch = page, pagesize = psize, status = FINISHED,
            begin_time = local_time w (clock w) div 1000, end_time = Some (local_time w (clock w + d1) div 1000)\<rparr>],
        db_trace := db_trace w @
          [\<lparr>task_id = (''DB.TASK'', issued w ''DB.TASK''), source = platform,
            batch = page, pagesize = psize, status = PENDING,
            begin_time = local_time w (clock w + d1) div 1000, end_time = None\<rparr>],
        insert_calls := insert_calls w @ [map asdict es],
        shared := x\<rparr>)"
  using assms by (simp add: run_defs)

lemma run_success:
  assumes "async_func (shared w) = (Inr es, x, d1)"
      and "sink (collection w) (map asdict es) = (None, d2)"
  shows "abstract_run_with_checkpoint platform sink page psize asdict async_func w =
     (Inr (PyList (map asdict es)),
      w\<lparr>clock := clock w + d1 + d2 + 1000000,
        issued := (issued w)(''BATCH.TASK'' := Suc (issued w ''BATCH.TASK''),
                             ''DB.TASK'' := Suc (issued w ''DB.TASK'')),
        batch_trace := batch_trace w @
          [\<lparr>task_id = (''BATCH.TASK'', issued w ''BATCH.TASK''), source = platform,
            batch = page, pagesize = psize, status = PENDING,
            begin_time = local_time w (clock w) div 1000, end_time = None\<rparr>,
           \<lparr>task_id = (''BATCH.TASK'', issued w ''BATCH.TASK''), source = platform,
            batch = page, pagesize = psize, status = FINISHED,
            begin_time = local_time w (clock w) div 1000, end_time = Some (local_time w (clock w + d1) div 1000)\<rparr>],
        db_trace := db_trace w @
          [\<lparr>task_id = (''DB.TASK'', issued w ''DB.TASK''), source = platform,
            batch = page, pagesize = psize, status = PENDING,
            begin_time = local_time w (clock w + d1) div 1000, end_time = None\<rparr>,
           \<lparr>task_id = (''DB.TASK'', issued w ''DB.TASK''), source = platform,
            batch = page, pagesize = psize, status = FINISHED,
            begin_time = local_time w (clock w + d1) div 1000,
            end_time = Some (local_time w (clock w + d1 + d2) div 1000)\<rparr>],
        insert_calls := insert_calls w @ [map asdict es],
        collection := collection w @ map asdict es,
        slept := slept w + 1,
        shared := x\<rparr>)"
  using assms by (simp add: run_defs)

lemma run_cases:
  obtains (fetch_error) e x d where "async_func (shared w) = (Inl e, x, d)"
  | (sink_error) es x d1 e d2 where "async_func (shared w) = (Inr es, x, d1)"
      "sink (collection w) (map asdict es) = (Some e, d2)"
  | (success) es x d1 d2 where "async_func (shared w) = (Inr es, x, d1)"
      "sink (collection w) (map asdict es) = (None, d2)"
proof -
  obtain r x d where f: "async_func (shared w) = (r, x, d)"
    by (cases "async_func (shared w)") auto
  show thesis
  proof (cases r)
    case (Inl e)
    with f show thesis by (auto intro: fetch_error)
  next
    case (Inr es)
    obtain a d2 where s: "sink (collection w) (map asdict es) = (a, d2)"
      by (cases "sink (collection w) (map asdict es)") auto
    show thesis
    proof (cases a)
      case None
      with f s Inr show thesis by (auto intro: success)
    next
      case (Some e)
      with f s Inr show thesis by (auto intro: sink_error)
    qed
  qed
qed

lemma run_failed_fetch:
  assumes "fst (fetch (shared w)) = Inl e"
  shows "fst (abstract_run_with_checkpoint platform sink page psize asdict fetch w) = Inl e \<and>
         map status (drop (length (batch_trace w))
           (batch_trace (snd (abstract_run_with_checkpoint platform sink page psize asdict fetch w))))
           = [PENDING]"
proof -
  obtain x d where "fetch (shared w) = (Inl e, x, d)"
    using assms by (cases "fetch (shared w)") auto
  from run_fetch_error [where async_func = fetch and w = w, OF this]
  show ?thesis by simp
qed

lemma run_slept:
  assumes run: "abstract_run_with_checkpoint platform sink page psize asdict async_func w = (r, w')"
  shows "slept w' = (case r of Inl e \<Rightarrow> slept w | Inr v \<Rightarrow> slept w + 1)"
proof (cases rule: run_cases [where async_func = async_func and w = w and sink = sink
      and asdict = asdict])
  case (fetch_error e x d)
  from run_fetch_error [where async_func = async_func and w = w, OF this] run
  show ?thesis by auto
next
  case (sink_error es x d1 e d2)
  from run_sink_error [where async_func = async_func and w = w and sink = sink
      and asdict = asdict, OF this] run
  show ?thesis by auto
next
  case (success es x d1 d2)
  from run_success [where async_func = async_func and w = w and sink = sink
      and asdict = asdict, OF this] run
  show ?thesis by auto
qed

subsection \<open>Task ids and their events\<close>

lemma events_of_append: "events_of k (xs @ ys) = events_of k xs @ events_of k ys"
  by (simp add: events_of_def)

lemma events_of_Cons:
  "events_of k (ev # evs) = (if task_id ev = k then ev # events_of k evs else events_of k evs)"
  by (simp add: events_of_def)

lemma events_of_Nil: "events_of k [] = []"
  by (simp add: events_of_def)

lemma keys_fresh_events_of:
  assumes "keys_fresh w"
  shows "events_of (c, issued w c) (batch_trace w) = [] \<and>
         events_of (c, issued w c) (db_trace w) = []"
proof -
  have "\<forall>ev \<in> set (batch_trace w) \<union> set (db_trace w). task_id ev \<noteq> (c, issued w c)"
  proof
    fix ev assume ev: "ev \<in> set (batch_trace w) \<union> set (db_trace w)"
    show "task_id ev \<noteq> (c, issued w c)"
    proof
      assume k: "task_id ev = (c, issued w c)"
      from assms ev have "snd (task_id ev) < issued w (fst (task_id ev))"
        unfolding keys_fresh_def by blast
      with k show False by simp
    qed
  qed
  then show ?thesis
    by (auto simp: events_of_def filter_empty_conv)
qed

lemma keys_fresh_initial: "keys_fresh (initial_world x)"
  by (simp add: keys_fresh_def initial_world_def)

lemma keys_fresh_step:
  assumes fresh: "keys_fresh w"
      and mono: "\<And>c. issued w c \<le> issued w' c"
      and new: "\<And>ev. ev \<in> set (batch_trace w') \<union> set (db_trace w') \<Longrightarrow>
                  ev \<in> set (batch_trace w) \<union> set (db_trace w) \<or>
                  snd (task_id ev) < issued w' (fst (task_id ev))"
  shows "keys_fresh w'"
  unfolding keys_fresh_def
proof
  fix ev assume "ev \<in> set (batch_trace w') \<union> set (db_trace w')"
  from new [OF this] show "snd (task_id ev) < issued w' (fst (task_id ev))"
  proof
    assume "ev \<in> set (batch_trace w) \<union> set (db_trace w)"
    with fresh have "snd (task_id ev) < issued w (fst (task_id ev))"
      unfolding keys_fresh_def by blast
    with mono [of "fst (task_id ev)"] show ?thesis by simp
  qed simp
qed

text \<open>A run keeps the task ids of the logs below the counters of the key generator.\<close>

lemma run_keeps_keys_fresh:
  assumes fresh: "keys_fresh w"
      and run: "abstract_run_with_checkpoint platform sink page psize asdict async_func w = (r, w')"
  shows "keys_fresh w'"
proof (cases rule: run_cases [where async_func = async_func and w = w and sink = sink
      and asdict = asdict])
  case (fetch_error e x d)
  from run_fetch_error [where async_func = async_func and w = w, OF this] run
  show ?thesis by (intro keys_fresh_step [OF fresh]) auto
next
  case (sink_error es x d1 e d2)
  from run_sink_error [where async_func = async_func and w = w and sink = sink
      and asdict = asdict, OF this] run
  show ?thesis by (intro keys_fresh_step [OF fresh]) auto
next
  case (success es x d1 d2)
  from run_success [where async_func = async_func and w = w and sink = sink
      and asdict = asdict, OF this] run
  show ?thesis by (intro keys_fresh_step [OF fresh]) auto
qed

subsection \<open>The concrete runs\<close>

lemma run_on_no_films_motor:
  "run_on_no_films (motor_sink 700) =
     (Inl TypeError,
      \<lparr>clock = 2200, local_time = (\<lambda>t. t),
       issued = (\<lambda>category. 0)(''BATCH.TASK'' := Suc 0, ''DB.TASK'' := Suc 0),
       batch_trace =
         [\<lparr>task_id = (''BATCH.TASK'', 0), source = ''bilibili'', batch = 5, pagesize = 60,
           status = PENDING, begin_time = 0, end_time = None\<rparr>,
          \<lparr>task_id = (''BATCH.TASK'', 0), source = ''bilibili'', batch = 5, pagesize = 60,
           status = FINISHED, begin_time = 0, end_time = Some 1\<rparr>],
       db_trace =
         [\<lparr>task_id = (''DB.TASK'', 0), source = ''bilibili'', batch = 5, pagesize = 60,
           status = PENDING, begin_time = 1, end_time = None\<rparr>],
       insert_calls = [[]], collection = [], slept = 0, shared = ()\<rparr>)"
  by (simp add: run_on_no_films_def run_defs no_films_def motor_sink_def initial_world_def)

lemma run_on_two_films_acks:
  "fst (run_on_two_films sink_acks) =
     Inr (PyList [PyDict [(''title'', PyStr ''Alpha'')], PyDict [(''title'', PyStr ''Beta'')]])"
  by (simp add: run_on_two_films_def run_defs two_films_def sink_acks_def initial_world_def
      film_asdict_def)

subsection \<open>The successful run\<close>

text \<open>
  C1. The claim: whenever the fetch of the adapter returns K entities, one run persists
  exactly K records and records exactly one PENDING and one FINISHED event in each of
  the two logs, with an end timestamp not before the begin timestamp. The records and
  the FINISHED persistence event are there only when the sink acknowledges the batch,
  and the two timestamps of a pair are two readings of the local time of the host,
  which may be set back between them.
  As amended: when the fetch of the adapter returns K entities and the sink acknowledges
  the call of \<^verbatim>\<open>insert_many\<close>, one run appends exactly the K flattened records to the
  collection, records exactly one PENDING and one FINISHED event for its batch task and
  exactly one PENDING and one FINISHED event for its persistence task; in each pair the
  end timestamp is not before the begin timestamp when the local time read at the end is
  not before the local time read at the begin.
\<close>

theorem run_persists_and_traces:
  assumes fetch: "async_func (shared w) = (Inr es, x, d1)"
      and ack: "sink (collection w) (map asdict es) = (None, d2)"
      and run: "abstract_run_with_checkpoint platform sink page psize asdict async_func w = (r, w')"
  shows "collection w' = collection w @ map asdict es
       \<and> length (collection w') = length (collection w) + length es
       \<and> (\<exists>p f t. batch_trace w' = batch_trace w @ [p, f] \<and> status p = PENDING \<and>
             status f = FINISHED \<and> task_id f = task_id p \<and> begin_time f = begin_time p \<and>
             end_time f = Some t \<and>
             (local_time w (clock w) \<le> local_time w (clock w + d1) \<longrightarrow> begin_time p \<le> t))
       \<and> (\<exists>p f t. db_trace w' = db_trace w @ [p, f] \<and> status p = PENDING \<and>
             status f = FINISHED \<and> task_id f = task_id p \<and> begin_time f = begin_time p \<and>
             end_time f = Some t \<and>
             (local_time w (clock w + d1) \<le> local_time w (clock w + d1 + d2)
                \<longrightarrow> begin_time p \<le> t))"
proof -
  have t1: "local_time w (clock w) \<le> local_time w (clock w + d1) \<longrightarrow>
              local_time w (clock w) div 1000 \<le> local_time w (clock w + d1) div 1000"
    by (simp add: div_le_mono)
  have t2: "local_time w (clock w + d1) \<le> local_time w (clock w + d1 + d2) \<longrightarrow>
              local_time w (clock w + d1) div 1000 \<le> local_time w (clock w + d1 + d2) div 1000"
    by (simp add: div_le_mono)
  from run_success [where async_func = async_func and w = w and sink = sink
      and asdict = asdict, OF fetch ack, of platform page psize] run
  have w': "w' = w\<lparr>clock := clock w + d1 + d2 + 1000000,
        issued := (issued w)(''BATCH.TASK'' := Suc (issued w ''BATCH.TASK''),
                             ''DB.TASK'' := Suc (issued w ''DB.TASK'')),
        batch_trace := batch_trace w @
          [\<lparr>task_id = (''BATCH.TASK'', issued w ''BATCH.TASK''), source = platform,
            batch = page, pagesize = psize, status = PENDING,
            begin_time = local_time w (clock w) div 1000, end_time = None\<rparr>,
           \<lparr>task_id = (''BATCH.TASK'', issued w ''BATCH.TASK''), source = platform,
            batch = page, pagesize = psize, status = FINISHED,
            begin_time = local_time w (clock w) div 1000,
            end_time = Some (local_time w (clock w + d1) div 1000)\<rparr>],
        db_trace := db_trace w @
          [\<lparr>task_id = (''DB.TASK'', issued w ''DB.TASK''), source = platform,
            batch = page, pagesize = psize, status = PENDING,
            begin_time = local_time w (clock w + d1) div 1000, end_time = None\<rparr>,
           \<lparr>task_id = (''DB.TASK'', issued w ''DB.TASK''), source = platform,
            batch = page, pagesize = psize, status = FINISHED,
            begin_time = local_time w (clock w + d1) div 1000,
            end_time = Some (local_time w (clock w + d1 + d2) div 1000)\<rparr>],
        insert_calls := insert_calls w @ [map asdict es],
        collection := collection w @ map asdict es,
        slept := slept w + 1,
        shared := x\<rparr>"
    by simp
  have c: "collection w' = collection w @ map asdict es"
    by (simp add: w')
  have b: "\<exists>p f t. batch_trace w' = batch_trace w @ [p, f] \<and> status p = PENDING \<and>
             status f = FINISHED \<and> task_id f = task_id p \<and> begin_time f = begin_time p \<and>
             end_time f = Some t \<and>
             (local_time w (clock w) \<le> local_time w (clock w + d1) \<longrightarrow> begin_time p \<le> t)"
    using t1 by (simp add: w')
  have d: "\<exists>p f t. db_trace w' = db_trace w @ [p, f] \<and> status p = PENDING \<and>
             status f = FINISHED \<and> task_id f = task_id p \<and> begin_time f = begin_time p \<and>
             end_time f = Some t \<and>
             (local_time w (clock w + d1) \<le> local_time w (clock w + d1 + d2)
                \<longrightarrow> begin_time p \<le> t)"
    using t2 by (simp add: w')
  from c b d show ?thesis by simp
qed

theorem run_persists_and_traces_witness:
  "two_films (shared (initial_world ())) = (Inr [''Alpha'', ''Beta''], (), 1500)
   \<and> sink_acks (collection (initial_world ())) (map film_asdict [''Alpha'', ''Beta'']) = (None, 700)
   \<and> local_time (initial_world ()) (clock (initial_world ()))
        \<le> local_time (initial_world ()) (clock (initial_world ()) + 1500)
   \<and> local_time (initial_world ()) (clock (initial_world ()) + 1500)
        \<le> local_time (initial_world ()) (clock (initial_world ()) + 1500 + 700)
   \<and> collection (snd (run_on_two_films sink_acks)) =
       [PyDict [(''title'', PyStr ''Alpha'')], PyDict [(''title'', PyStr ''Beta'')]]
   \<and> length (collection (snd (run_on_two_films sink_acks))) = 2
   \<and> (\<exists>p f t. batch_trace (snd (run_on_two_films sink_acks)) = [p, f] \<and> status p = PENDING \<and>
             status f = FINISHED \<and> task_id f = task_id p \<and> begin_time f = begin_time p \<and>
             end_time f = Some t \<and> begin_time p \<le> t)
   \<and> (\<exists>p f t. db_trace (snd (run_on_two_films sink_acks)) = [p, f] \<and> status p = PENDING \<and>
             status f = FINISHED \<and> task_id f = task_id p \<and> begin_time f = begin_time p \<and>
             end_time f = Some t \<and> begin_time p \<le> t)"
proof -
  have f: "two_films (shared (initial_world ())) = (Inr [''Alpha'', ''Beta''], (), 1500)"
    by (simp add: two_films_def)
  have a: "sink_acks (collection (initial_world ())) (map film_asdict [''Alpha'', ''Beta''])
             = (None, 700)"
    by (simp add: sink_acks_def)
  have r: "abstract_run_with_checkpoint ''bilibili'' sink_acks 1 60 film_asdict two_films
             (initial_world ()) = (fst (run_on_two_films sink_acks), snd (run_on_two_films sink_acks))"
    by (simp add: run_on_two_films_def)
  from run_persists_and_traces [where async_func = two_films and sink = sink_acks, OF f a r] f a
  show ?thesis
    by (simp add: initial_world_def film_asdict_def)
qed

text \<open>
  Two runs whose fetch returns two films without failing and which do not end as the
  claim says. In the first the sink fails: nothing is persisted and the persistence task
  has its PENDING event only. In the second the sink acknowledges and the two records
  are persisted, but the local time of the host is set back while the fetch is awaited:
  the batch task begins at 3600000 ms and ends at 1 ms.
\<close>

theorem fetched_batch_not_persisted:
  "fst (two_films (shared (initial_world ()))) = Inr [''Alpha'', ''Beta'']
   \<and> fst (run_on_two_films sink_down) = Inl PyMongoError
   \<and> collection (snd (run_on_two_films sink_down)) = []
   \<and> map status (db_trace (snd (run_on_two_films sink_down))) = [PENDING]
   \<and> length (collection (snd run_over_fall_back)) = 2
   \<and> map status (batch_trace (snd run_over_fall_back)) = [PENDING, FINISHED]
   \<and> map begin_time (batch_trace (snd run_over_fall_back)) = [3600000, 3600000]
   \<and> map end_time (batch_trace (snd run_over_fall_back)) = [None, Some 1]"
  by (simp add: run_on_two_films_def run_over_fall_back_def run_defs two_films_def sink_down_def
      sink_acks_def initial_world_def fall_back_def)

text \<open>
  C5. The claim has the run return the count of the records it persisted. The call
  returns the list \<^verbatim>\<open>documents\<close> itself, as the annotation
  \<^verbatim>\<open>-> list[dict[str, any]]\<close> of the function says. As amended: every run that returns,
  returns the list of the records it persisted, one record per fetched entity, so that
  the length of the returned list is the number of entities fetched.
\<close>

theorem run_returns_documents:
  assumes run: "abstract_run_with_checkpoint platform sink page psize asdict async_func w
                  = (Inr v, w')"
  shows "\<exists>es x d. async_func (shared w) = (Inr es, x, d) \<and>
           v = PyList (map asdict es) \<and>
           collection w' = collection w @ map asdict es \<and>
           length (map asdict es) = length es"
proof (cases rule: run_cases [where async_func = async_func and w = w and sink = sink
      and asdict = asdict])
  case (fetch_error e x d)
  from run_fetch_error [where async_func = async_func and w = w, OF this] run
  show ?thesis by auto
next
  case (sink_error es x d1 e d2)
  from run_sink_error [where async_func = async_func and w = w and sink = sink
      and asdict = asdict, OF this] run
  show ?thesis by auto
next
  case (success es x d1 d2)
  from run_success [where async_func = async_func and w = w and sink = sink
      and asdict = asdict, OF this] run success
  show ?thesis by auto
qed

theorem run_returns_documents_witness:
  "abstract_run_with_checkpoint ''bilibili'' sink_acks 1 60 film_asdict two_films
      (initial_world ()) =
     (Inr (PyList [PyDict [(''title'', PyStr ''Alpha'')], PyDict [(''title'', PyStr ''Beta'')]]),
      snd (run_on_two_films sink_acks))
   \<and> (\<exists>es x d. two_films (shared (initial_world ())) = (Inr es, x, d) \<and>
           PyList [PyDict [(''title'', PyStr ''Alpha'')], PyDict [(''title'', PyStr ''Beta'')]] =
             PyList (map film_asdict es) \<and>
           collection (snd (run_on_two_films sink_acks)) =
             collection (initial_world ()) @ map film_asdict es \<and>
           length (map film_asdict es) = length es)"
proof -
  have r: "abstract_run_with_checkpoint ''bilibili'' sink_acks 1 60 film_asdict two_films
      (initial_world ()) =
     (Inr (PyList [PyDict [(''title'', PyStr ''Alpha'')], PyDict [(''title'', PyStr ''Beta'')]]),
      snd (run_on_two_films sink_acks))"
    using run_on_two_films_acks
    by (simp add: run_on_two_films_def prod_eq_iff)
  from run_returns_documents [OF r] r show ?thesis by blast
qed

text \<open>
  The run on two films returns the list of its two records, which is not the number 2.
\<close>

theorem run_returns_list_not_count:
  "fst (run_on_two_films sink_acks) =
     Inr (PyList [PyDict [(''title'', PyStr ''Alpha'')], PyDict [(''title'', PyStr ''Beta'')]])
   \<and> fst (run_on_two_films sink_acks) \<noteq> Inr (PyInt 2)"
  by (simp add: run_on_two_films_acks)

subsection \<open>The empty batch\<close>

text \<open>
  The orchestrator has no case of its own for a fetch that returns no entity: it calls
  \<^verbatim>\<open>insert_many\<close> with the empty list, and what follows is the sink's answer to that
  call. A sink that acknowledged it would see the run through.
\<close>

lemma empty_batch_on_any_sink:
  assumes fetch: "async_func (shared w) = (Inr [], x, d1)"
      and run: "abstract_run_with_checkpoint platform sink page psize asdict async_func w = (r, w')"
  shows "insert_calls w' = insert_calls w @ [[]]
       \<and> (fst (sink (collection w) []) = None \<longrightarrow>
            r = Inr (PyList []) \<and>
            (\<exists>p f. db_trace w' = db_trace w @ [p, f] \<and> status p = PENDING \<and> status f = FINISHED) \<and>
            slept w' = slept w + 1)"
proof (cases "sink (collection w) []")
  case (Pair a d2)
  show ?thesis
  proof (cases a)
    case None
    with Pair have "sink (collection w) (map asdict []) = (None, d2)" by simp
    from run_success [where async_func = async_func and w = w and sink = sink
      and asdict = asdict, OF fetch this] run Pair None
    show ?thesis by auto
  next
    case (Some e)
    with Pair have "sink (collection w) (map asdict []) = (Some e, d2)" by simp
    from run_sink_error [where async_func = async_func and w = w and sink = sink
      and asdict = asdict, OF fetch this] run Pair Some
    show ?thesis by auto
  qed
qed

text \<open>The sink of the driver acknowledges no call with the empty list.\<close>

lemma motor_sink_refuses_empty:
  "motor_sink d stored [] = (Some TypeError, d)"
  by (simp add: motor_sink_def)

text \<open>
  C3. The claim: when the fetch returns no entity, \<^verbatim>\<open>insert_many\<close> is still called with
  the empty list, both persistence events are still recorded and the delay is still
  applied. The empty batch is a regular result of a fetch: \<^verbatim>\<open>Bilibili.raw_fetch_async\<close>
  returns \<^verbatim>\<open>[]\<close> on every reply whose status is not 200, and \<^verbatim>\<open>handle_data\<close> on every
  reply without a list of films. The orchestrator hands it to \<^verbatim>\<open>insert_many\<close> unguarded,
  and the driver refuses an empty list. So in every run whose fetch returns no entity,
  on the sink of the driver: the call with the empty list is made and raises TypeError,
  which ends the run; the fetch is recorded as FINISHED, the persistence task has its
  PENDING event only, nothing is stored and no delay is applied.
\<close>

theorem empty_batch_fails_on_motor:
  assumes fetch: "async_func (shared w) = (Inr [], x, d1)"
      and run: "abstract_run_with_checkpoint platform (motor_sink d) page psize asdict async_func w
                  = (r, w')"
  shows "r = Inl TypeError
       \<and> insert_calls w' = insert_calls w @ [[]]
       \<and> collection w' = collection w
       \<and> (\<exists>p f. batch_trace w' = batch_trace w @ [p, f] \<and> status p = PENDING \<and>
             status f = FINISHED)
       \<and> (\<exists>p. db_trace w' = db_trace w @ [p] \<and> status p = PENDING \<and> end_time p = None)
       \<and> slept w' = slept w"
proof -
  have s: "motor_sink d (collection w) (map asdict []) = (Some TypeError, d)"
    by (simp add: motor_sink_def)
  from run_sink_error [where async_func = async_func and w = w and sink = "motor_sink d"
      and asdict = asdict, OF fetch s, of platform page psize] run
  have w': "r = Inl TypeError" "w' = w\<lparr>clock := clock w + d1 + d,
        issued := (issued w)(''BATCH.TASK'' := Suc (issued w ''BATCH.TASK''),
                             ''DB.TASK'' := Suc (issued w ''DB.TASK'')),
        batch_trace := batch_trace w @
          [\<lparr>task_id = (''BATCH.TASK'', issued w ''BATCH.TASK''), source = platform,
            batch = page, pagesize = psize, status = PENDING,
            begin_time = local_time w (clock w) div 1000, end_time = None\<rparr>,
           \<lparr>task_id = (''BATCH.TASK'', issued w ''BATCH.TASK''), source = platform,
            batch = page, pagesize = psize, status = FINISHED,
            begin_time = local_time w (clock w) div 1000,
            end_time = Some (local_time w (clock w + d1) div 1000)\<rparr>],
        db_trace := db_trace w @
          [\<lparr>task_id = (''DB.TASK'', issued w ''DB.TASK''), source = platform,
            batch = page, pagesize = psize, status = PENDING,
            begin_time = local_time w (clock w + d1) div 1000, end_time = None\<rparr>],
        insert_calls := insert_calls w @ [map asdict []],
        shared := x\<rparr>"
    by simp_all
  show ?thesis
    by (simp add: w')
qed

text \<open>
  The Bilibili source answers with status 500: the fetch returns the empty list, and the
  run ends with the TypeError of \<^verbatim>\<open>insert_many\<close>.
\<close>

theorem empty_batch_fails_on_motor_witness:
  "(case Bilibili_raw_fetch_async bilibili_down no_repr no_parse actors_but_8 film_entity 3
           (shared (initial_world initial_shared)) of (r, x') \<Rightarrow> (r, x', 1500 :: nat))
     = (Inr [], initial_shared\<lparr>bilibili_params := Bilibili_set_page 3 Bilibili_params\<rparr>, 1500)
   \<and> fst (Bilibili_run_async bilibili_down no_repr no_parse actors_but_8 film_entity 1500
           (motor_sink 700) film_asdict 3 (initial_world initial_shared)) = Inl TypeError
   \<and> insert_calls (snd (Bilibili_run_async bilibili_down no_repr no_parse actors_but_8
           film_entity 1500 (motor_sink 700) film_asdict 3 (initial_world initial_shared))) = [[]]
   \<and> collection (snd (Bilibili_run_async bilibili_down no_repr no_parse actors_but_8
           film_entity 1500 (motor_sink 700) film_asdict 3 (initial_world initial_shared))) = []
   \<and> map status (batch_trace (snd (Bilibili_run_async bilibili_down no_repr no_parse
           actors_but_8 film_entity 1500 (motor_sink 700) film_asdict 3
           (initial_world initial_shared)))) = [PENDING, FINISHED]
   \<and> map status (db_trace (snd (Bilibili_run_async bilibili_down no_repr no_parse
           actors_but_8 film_entity 1500 (motor_sink 700) film_asdict 3
           (initial_world initial_shared)))) = [PENDING]
   \<and> slept (snd (Bilibili_run_async bilibili_down no_repr no_parse actors_but_8
           film_entity 1500 (motor_sink 700) film_asdict 3 (initial_world initial_shared))) = 0"
proof -
  let ?fetch = "\<lambda>x. case Bilibili_raw_fetch_async bilibili_down no_repr no_parse actors_but_8
                         film_entity 3 x of (r, x') \<Rightarrow> (r, x', 1500 :: nat)"
  let ?run = "Bilibili_run_async bilibili_down no_repr no_parse actors_but_8 film_entity 1500
                (motor_sink 700) film_asdict 3 (initial_world initial_shared)"
  have f: "?fetch (shared (initial_world initial_shared))
             = (Inr [], initial_shared\<lparr>bilibili_params := Bilibili_set_page 3 Bilibili_params\<rparr>,
                1500)"
    by (simp add: Bilibili_raw_fetch_async_def bilibili_down_def initial_world_def
        initial_shared_def Let_def)
  have r: "abstract_run_with_checkpoint ''bilibili'' (motor_sink 700) 3 Bilibili_pagesize
             film_asdict ?fetch (initial_world initial_shared) = (fst ?run, snd ?run)"
    by (simp add: Bilibili_run_async_def)
  from empty_batch_fails_on_motor [where async_func = ?fetch and d = 700
      and w = "initial_world initial_shared", OF f r] f
  show ?thesis
    by (auto simp: initial_world_def)
qed

subsection \<open>The failing run\<close>

text \<open>
  C2. When the fetch of the adapter raises, the run ends with that exception; the batch
  log has gained the PENDING event of the run's task id and nothing else, so the events
  of that task id are that one PENDING event and no FINISHED event; no persistence task
  id was allocated and no persistence event recorded; and \<^verbatim>\<open>insert_many\<close> was not called.
\<close>

theorem fetch_error_orphans_pending:
  assumes fetch: "async_func (shared w) = (Inl e, x, d)"
      and fresh: "keys_fresh w"
      and run: "abstract_run_with_checkpoint platform sink page psize asdict async_func w = (r, w')"
  shows "r = Inl e
       \<and> (\<exists>p. batch_trace w' = batch_trace w @ [p] \<and> status p = PENDING \<and>
              task_id p = (''BATCH.TASK'', issued w ''BATCH.TASK'') \<and>
              events_of (task_id p) (batch_trace w') = [p])
       \<and> db_trace w' = db_trace w
       \<and> issued w' ''DB.TASK'' = issued w ''DB.TASK''
       \<and> insert_calls w' = insert_calls w
       \<and> collection w' = collection w"
  using run keys_fresh_events_of [OF fresh, of "''BATCH.TASK''"]
  by (auto simp: run_fetch_error [where async_func = async_func and w = w, OF fetch]
      events_of_append events_of_Cons events_of_Nil)

theorem fetch_error_orphans_pending_witness:
  "fetch_fails (shared (initial_world ())) = (Inl ClientError, (), 1500)
   \<and> keys_fresh (initial_world ())
   \<and> fst run_on_failed_fetch = Inl ClientError
   \<and> (\<exists>p. batch_trace (snd run_on_failed_fetch) = [p] \<and> status p = PENDING \<and>
          task_id p = (''BATCH.TASK'', 0) \<and>
          events_of (task_id p) (batch_trace (snd run_on_failed_fetch)) = [p])
   \<and> db_trace (snd run_on_failed_fetch) = []
   \<and> issued (snd run_on_failed_fetch) ''DB.TASK'' = 0
   \<and> insert_calls (snd run_on_failed_fetch) = []
   \<and> collection (snd run_on_failed_fetch) = []"
proof -
  have f: "fetch_fails (shared (initial_world ())) = (Inl ClientError, (), 1500)"
    by (simp add: fetch_fails_def)
  have r: "abstract_run_with_checkpoint ''bilibili'' sink_acks 3 60 film_asdict fetch_fails
             (initial_world ()) = (fst run_on_failed_fetch, snd run_on_failed_fetch)"
    by (simp add: run_on_failed_fetch_def)
  from fetch_error_orphans_pending [where async_func = fetch_fails, OF f keys_fresh_initial r]
    f keys_fresh_initial [of "()"]
  show ?thesis
    by (simp add: initial_world_def)
qed

text \<open>
  C10. When the fetch of the adapter raises, or the fetch succeeds and \<^verbatim>\<open>insert_many\<close>
  raises, the run ends with that exception and the time spent in \<^verbatim>\<open>asyncio.sleep\<close> is
  what it was before the run: the delay is applied on the successful path only.
\<close>

theorem delay_only_after_success:
  assumes raises: "(\<exists>x d. async_func (shared w) = (Inl e, x, d)) \<or>
                   (\<exists>es x d1 d2. async_func (shared w) = (Inr es, x, d1) \<and>
                      sink (collection w) (map asdict es) = (Some e, d2))"
      and run: "abstract_run_with_checkpoint platform sink page psize asdict async_func w = (r, w')"
  shows "r = Inl e \<and> slept w' = slept w"
  using raises
proof (elim disjE exE conjE)
  fix x d assume "async_func (shared w) = (Inl e, x, d)"
  from run_fetch_error [where async_func = async_func and w = w, OF this] run
  show ?thesis by auto
next
  fix es x d1 d2
  assume "async_func (shared w) = (Inr es, x, d1)"
    and "sink (collection w) (map asdict es) = (Some e, d2)"
  from run_sink_error [where async_func = async_func and w = w and sink = sink
      and asdict = asdict, OF this] run
  show ?thesis by auto
qed

theorem delay_only_after_success_witness:
  "((\<exists>x d. two_films (shared (initial_world ())) = (Inl PyMongoError, x, d)) \<or>
    (\<exists>es x d1 d2. two_films (shared (initial_world ())) = (Inr es, x, d1) \<and>
        sink_down (collection (initial_world ())) (map film_asdict es) = (Some PyMongoError, d2)))
   \<and> fst (run_on_two_films sink_down) = Inl PyMongoError
   \<and> slept (snd (run_on_two_films sink_down)) = 0"
proof -
  have h: "(\<exists>x d. two_films (shared (initial_world ())) = (Inl PyMongoError, x, d)) \<or>
    (\<exists>es x d1 d2. two_films (shared (initial_world ())) = (Inr es, x, d1) \<and>
        sink_down (collection (initial_world ())) (map film_asdict es) = (Some PyMongoError, d2))"
    by (simp add: two_films_def sink_down_def)
  have r: "abstract_run_with_checkpoint ''bilibili'' sink_down 1 60 film_asdict two_films
             (initial_world ()) = (fst (run_on_two_films sink_down), snd (run_on_two_films sink_down))"
    by (simp add: run_on_two_films_def)
  from delay_only_after_success [where async_func = two_films and sink = sink_down
      and asdict = film_asdict, OF h r] h
  show ?thesis
    by (simp add: initial_world_def)
qed

subsection \<open>The life of a task\<close>

text \<open>
  C9. For every task id that a run allocates, whatever the outcome of the run, the
  events recorded for that task id are its PENDING event, with a begin timestamp and no
  end timestamp, and after it at most one FINISHED event, with the same begin timestamp
  and an end timestamp: the status moves from PENDING to FINISHED only, and no task
  has a FINISHED event without the PENDING event before it.
\<close>

theorem trace_lifecycle:
  assumes fresh: "keys_fresh w"
      and run: "abstract_run_with_checkpoint platform sink page psize asdict async_func w = (r, w')"
      and alloc: "allocated w w' k"
  shows "lifecycle (events_of k (batch_trace w' @ db_trace w'))"
proof (cases rule: run_cases [where async_func = async_func and w = w and sink = sink
      and asdict = asdict])
  case (fetch_error e x d)
  from run_fetch_error [where async_func = async_func and w = w, OF this] run
  have w': "issued w' = (issued w)(''BATCH.TASK'' := Suc (issued w ''BATCH.TASK''))"
    "batch_trace w' = batch_trace w @
          [\<lparr>task_id = (''BATCH.TASK'', issued w ''BATCH.TASK''), source = platform,
            batch = page, pagesize = psize, status = PENDING,
            begin_time = local_time w (clock w) div 1000, end_time = None\<rparr>]"
    "db_trace w' = db_trace w"
    by auto
  from alloc w'(1) have k: "k = (''BATCH.TASK'', issued w ''BATCH.TASK'')"
    by (cases k) (auto simp: allocated_def split: if_splits)
  show ?thesis
    using keys_fresh_events_of [OF fresh, of "''BATCH.TASK''"]
    by (simp add: w' k events_of_append events_of_Cons events_of_Nil)
next
  case (sink_error es x d1 e d2)
  from run_sink_error [where async_func = async_func and w = w and sink = sink
      and asdict = asdict, OF this] run
  have w': "issued w' = (issued w)(''BATCH.TASK'' := Suc (issued w ''BATCH.TASK''),
                             ''DB.TASK'' := Suc (issued w ''DB.TASK''))"
    "batch_trace w' = batch_trace w @
          [\<lparr>task_id = (''BATCH.TASK'', issued w ''BATCH.TASK''), source = platform,
            batch = page, pagesize = psize, status = PENDING,
            begin_time = local_time w (clock w) div 1000, end_time = None\<rparr>,
           \<lparr>task_id = (''BATCH.TASK'', issued w ''BATCH.TASK''), source = platform,
            batch = page, pagesize = psize, status = FINISHED,
            begin_time = local_time w (clock w) div 1000, end_time = Some (local_time w (clock w + d1) div 1000)\<rparr>]"
    "db_trace w' = db_trace w @
          [\<lparr>task_id = (''DB.TASK'', issued w ''DB.TASK''), source = platform,
            batch = page, pagesize = psize, status = PENDING,
            begin_time = local_time w (clock w + d1) div 1000, end_time = None\<rparr>]"
    by auto
  from alloc w'(1)
  have k: "k = (''BATCH.TASK'', issued w ''BATCH.TASK'') \<or> k = (''DB.TASK'', issued w ''DB.TASK'')"
    by (cases k) (auto simp: allocated_def split: if_splits)
  then show ?thesis
    using keys_fresh_events_of [OF fresh, of "''BATCH.TASK''"]
      keys_fresh_events_of [OF fresh, of "''DB.TASK''"]
    by (auto simp: w' events_of_append events_of_Cons events_of_Nil)
next
  case (success es x d1 d2)
  from run_success [where async_func = async_func and w = w and sink = sink
      and asdict = asdict, OF this] run
  have w': "issued w' = (issued w)(''BATCH.TASK'' := Suc (issued w ''BATCH.TASK''),
                             ''DB.TASK'' := Suc (issued w ''DB.TASK''))"
    "batch_trace w' = batch_trace w @
          [\<lparr>task_id = (''BATCH.TASK'', issued w ''BATCH.TASK''), source = platform,
            batch = page, pagesize = psize, status = PENDING,
            begin_time = local_time w (clock w) div 1000, end_time = None\<rparr>,
           \<lparr>task_id = (''BATCH.TASK'', issued w ''BATCH.TASK''), source = platform,
            batch = page, pagesize = psize, status = FINISHED,
            begin_time = local_time w (clock w) div 1000, end_time = Some (local_time w (clock w + d1) div 1000)\<rparr>]"
    "db_trace w' = db_trace w @
          [\<lparr>task_id = (''DB.TASK'', issued w ''DB.TASK''), source = platform,
            batch = page, pagesize = psize, status = PENDING,
            begin_time = local_time w (clock w + d1) div 1000, end_time = None\<rparr>,
           \<lparr>task_id = (''DB.TASK'', issued w ''DB.TASK''), source = platform,
            batch = page, pagesize = psize, status = FINISHED,
            begin_time = local_time w (clock w + d1) div 1000,
            end_time = Some (local_time w (clock w + d1 + d2) div 1000)\<rparr>]"
    by auto
  from alloc w'(1)
  have k: "k = (''BATCH.TASK'', issued w ''BATCH.TASK'') \<or> k = (''DB.TASK'', issued w ''DB.TASK'')"
    by (cases k) (auto simp: allocated_def split: if_splits)
  then show ?thesis
    using keys_fresh_events_of [OF fresh, of "''BATCH.TASK''"]
      keys_fresh_events_of [OF fresh, of "''DB.TASK''"]
    by (auto simp: w' events_of_append events_of_Cons events_of_Nil)
qed

theorem trace_lifecycle_witness:
  "keys_fresh (initial_world ())
   \<and> abstract_run_with_checkpoint ''bilibili'' sink_down 1 60 film_asdict two_films
        (initial_world ()) = (fst (run_on_two_films sink_down), snd (run_on_two_films sink_down))
   \<and> allocated (initial_world ()) (snd (run_on_two_films sink_down)) (''DB.TASK'', 0)
   \<and> lifecycle (events_of (''DB.TASK'', 0)
        (batch_trace (snd (run_on_two_films sink_down)) @ db_trace (snd (run_on_two_films sink_down))))"
proof -
  have r: "abstract_run_with_checkpoint ''bilibili'' sink_down 1 60 film_asdict two_films
        (initial_world ()) = (fst (run_on_two_films sink_down), snd (run_on_two_films sink_down))"
    by (simp add: run_on_two_films_def)
  have a: "allocated (initial_world ()) (snd (run_on_two_films sink_down)) (''DB.TASK'', 0)"
    by (simp add: allocated_def run_on_two_films_def run_defs two_films_def sink_down_def
        initial_world_def)
  from trace_lifecycle [OF keys_fresh_initial r a] keys_fresh_initial [of "()"] r a
  show ?thesis by blast
qed

section \<open>Fetches of the source adapters\<close>

subsection \<open>The join of the enrichment sub-requests\<close>

lemma gather_fails:
  assumes "Inl e \<in> set ts"
  shows "\<exists>e'. gather ts = Inl e'"
  using assms by (induction ts) (auto split: sum.splits)

lemma gather_Inr:
  assumes "gather ts = Inr vs"
  shows "ts = map Inr vs"
  using assms by (induction ts arbitrary: vs) (auto split: sum.splits)

lemma gather_complete:
  assumes "gather ts = Inr vs"
  shows "length vs = length ts"
  using gather_Inr [OF assms] by simp

lemma py_getitem_Key_contains:
  assumes "py_getitem obj (Key k) = Inr v"
  shows "py_contains k obj = Inr True"
  using assms by (cases obj) (auto split: option.splits dest!: map_of_SomeD intro: rev_image_eqI)

lemma Bilibili_create_movie_entity_fails:
  assumes "fetch_actors eq_id = Inl e"
  shows "Bilibili_create_movie_entity parse fetch_actors entity item eq_id = Inl e"
  using assms by (simp add: Bilibili_create_movie_entity_def then_do_def)

lemma Bilibili_tasks_fail:
  assumes "item \<in> set items"
      and "py_path item [Key ''first_ep'', Key ''ep_id''] = Inr ep_id"
      and "Bilibili_create_movie_entity parse fetch_actors entity item (py_str repr ep_id) = Inl e"
  shows "(\<exists>e'. Bilibili_tasks repr parse fetch_actors entity items = Inl e') \<or>
         (\<exists>tasks. Bilibili_tasks repr parse fetch_actors entity items = Inr tasks \<and> Inl e \<in> set tasks)"
  using assms
proof (induction items)
  case Nil
  then show ?case by simp
next
  case (Cons a items)
  show ?case
  proof (cases "item = a")
    case True
    with Cons.prems show ?thesis
      by (auto split: sum.splits)
  next
    case False
    with Cons show ?thesis
      by (auto split: sum.splits)
  qed
qed

lemma Bilibili_handle_data_fail:
  assumes "py_path json_object [Key ''data'', Key ''list''] = Inr (PyList items)"
      and "item \<in> set items"
      and "py_path item [Key ''first_ep'', Key ''ep_id''] = Inr ep_id"
      and "Bilibili_create_movie_entity parse fetch_actors entity item (py_str repr ep_id) = Inl e"
  shows "\<exists>e'. Bilibili_handle_data repr parse fetch_actors entity json_object = Inl e'"
proof -
  from assms(1) obtain d where d: "py_getitem json_object (Key ''data'') = Inr d"
    and l: "py_getitem d (Key ''list'') = Inr (PyList items)"
    by (auto split: sum.splits)
  note c1 = py_getitem_Key_contains [OF d] and c2 = py_getitem_Key_contains [OF l]
  from Bilibili_tasks_fail [where fetch_actors = fetch_actors and repr = repr
      and entity = entity, OF assms(2-4)]
  show ?thesis
  proof
    assume "\<exists>e'. Bilibili_tasks repr parse fetch_actors entity items = Inl e'"
    then show ?thesis
      by (auto simp: Bilibili_handle_data_def c1 c2 d l)
  next
    assume "\<exists>tasks. Bilibili_tasks repr parse fetch_actors entity items = Inr tasks \<and> Inl e \<in> set tasks"
    then obtain tasks where t: "Bilibili_tasks repr parse fetch_actors entity items = Inr tasks"
      and "Inl e \<in> set tasks" by blast
    from gather_fails [OF this(2)] obtain e' where "gather tasks = Inl e'" ..
    with t show ?thesis
      by (auto simp: Bilibili_handle_data_def c1 c2 d l)
  qed
qed

lemma Tencent_tasks_fail:
  assumes "item \<in> set items"
      and "py_path item [Key ''params'', Key ''cid''] = Inr cid"
      and "get_movie_detail cid item = Inl e"
  shows "(\<exists>e'. Tencent_tasks get_movie_detail items = Inl e') \<or>
         (\<exists>tasks. Tencent_tasks get_movie_detail items = Inr tasks \<and> Inl e \<in> set tasks)"
  using assms
proof (induction items)
  case Nil
  then show ?case by simp
next
  case (Cons a items)
  show ?case
  proof (cases "item = a")
    case True
    with Cons.prems show ?thesis
      by (auto split: sum.splits)
  next
    case False
    with Cons show ?thesis
      by (auto split: sum.splits)
  qed
qed

lemma Tencent_handle_reply_fail:
  assumes "py_getitem json_object (Key ''ret'') = Inr ret" and "\<not> py_ne_zero ret"
      and "Tencent_cards json_object = Inr (PyList items)"
      and "item \<in> set items"
      and "py_path item [Key ''params'', Key ''cid''] = Inr cid"
      and "get_movie_detail cid item = Inl e"
  shows "\<exists>e'. Tencent_handle_reply get_movie_detail json_object = Inl e'"
proof -
  from Tencent_tasks_fail [where get_movie_detail = get_movie_detail, OF assms(4-6)]
  show ?thesis
  proof
    assume "\<exists>e'. Tencent_tasks get_movie_detail items = Inl e'"
    then show ?thesis
      using assms(1-3) by (auto simp: Tencent_handle_reply_def)
  next
    assume "\<exists>tasks. Tencent_tasks get_movie_detail items = Inr tasks \<and> Inl e \<in> set tasks"
    then obtain tasks where t: "Tencent_tasks get_movie_detail items = Inr tasks"
      and "Inl e \<in> set tasks" by blast
    from gather_fails [OF this(2)] obtain e' where "gather tasks = Inl e'" ..
    with t show ?thesis
      using assms(1-3) by (auto simp: Tencent_handle_reply_def)
  qed
qed

lemma Bilibili_fetch_fail:
  assumes "Bilibili_enrichment_fails get repr parse fetch_actors entity page x"
  shows "\<exists>e'. fst (Bilibili_raw_fetch_async get repr parse fetch_actors entity page x) = Inl e'"
proof -
  let ?failing = "\<lambda>item. case py_path item [Key ''first_ep'', Key ''ep_id''] of
                         Inl e \<Rightarrow> False
                       | Inr ep_id \<Rightarrow>
                           isl (Bilibili_create_movie_entity parse fetch_actors entity item
                                  (py_str repr ep_id))"
  from assms obtain reply where r1: "get (Bilibili_set_page page (bilibili_params x)) = Inr reply"
    unfolding Bilibili_enrichment_fails_def
    by (cases "get (Bilibili_set_page page (bilibili_params x))") auto
  from assms r1 have r2: "http_status reply = 200"
    unfolding Bilibili_enrichment_fails_def by simp
  from assms r1 obtain json_object where r3: "body reply = Inr json_object"
    unfolding Bilibili_enrichment_fails_def by (cases "body reply") auto
  from assms r1 r3 obtain v where
    p0: "py_path json_object [Key ''data'', Key ''list''] = Inr v"
    unfolding Bilibili_enrichment_fails_def
    by (cases "py_path json_object [Key ''data'', Key ''list'']") (auto simp del: py_path.simps)
  from assms r1 r3 p0 obtain items where v: "v = PyList items" and ex: "list_ex ?failing items"
    unfolding Bilibili_enrichment_fails_def
    by (cases v) (auto simp del: py_path.simps)
  from ex obtain item where i: "item \<in> set items" and f: "?failing item"
    unfolding list_ex_iff by blast
  from f obtain ep_id where
    ep: "py_path item [Key ''first_ep'', Key ''ep_id''] = Inr ep_id"
    and "isl (Bilibili_create_movie_entity parse fetch_actors entity item (py_str repr ep_id))"
    by (cases "py_path item [Key ''first_ep'', Key ''ep_id'']") (auto simp del: py_path.simps)
  then obtain e where
    e: "Bilibili_create_movie_entity parse fetch_actors entity item (py_str repr ep_id) = Inl e"
    by (auto simp: isl_def)
  from Bilibili_handle_data_fail [where fetch_actors = fetch_actors and repr = repr
      and entity = entity, OF p0 [unfolded v] i ep e] r1 r2 r3 show ?thesis
    by (auto simp: Bilibili_raw_fetch_async_def Let_def)
qed

lemma Tencent_fetch_fail:
  assumes "Tencent_enrichment_fails post get_movie_detail page x"
  shows "\<exists>e'. fst (Tencent_get_movies post get_movie_detail page x) = Inl e'"
proof -
  let ?failing = "\<lambda>item. case py_path item [Key ''params'', Key ''cid''] of
                         Inl e \<Rightarrow> False
                       | Inr cid \<Rightarrow> isl (get_movie_detail cid item)"
  obtain a payload where s0: "Tencent_set_page page (tencent_payload x) = (a, payload)"
    by (cases "Tencent_set_page page (tencent_payload x)") auto
  from assms s0 have a: "a = None"
    unfolding Tencent_enrichment_fails_def by (cases a) auto
  note s = s0 [unfolded a]
  from assms s obtain reply where r1: "post payload = Inr reply"
    unfolding Tencent_enrichment_fails_def by (cases "post payload") auto
  from assms s r1 obtain json_object where r2: "body reply = Inr json_object"
    unfolding Tencent_enrichment_fails_def by (cases "body reply") auto
  from assms s r1 r2 obtain ret where c1: "py_getitem json_object (Key ''ret'') = Inr ret"
    unfolding Tencent_enrichment_fails_def
    by (cases "py_getitem json_object (Key ''ret'')") auto
  from assms s r1 r2 c1 have c2: "\<not> py_ne_zero ret"
    unfolding Tencent_enrichment_fails_def by simp
  from assms s r1 r2 c1 obtain v where c3: "Tencent_cards json_object = Inr v"
    unfolding Tencent_enrichment_fails_def by (cases "Tencent_cards json_object") auto
  from assms s r1 r2 c1 c3 obtain items where v: "v = PyList items"
    and ex: "list_ex ?failing items"
    unfolding Tencent_enrichment_fails_def by (cases v) auto
  from ex obtain item where i: "item \<in> set items" and f: "?failing item"
    unfolding list_ex_iff by blast
  from f obtain cid where
    cid: "py_path item [Key ''params'', Key ''cid''] = Inr cid"
    and "isl (get_movie_detail cid item)"
    by (cases "py_path item [Key ''params'', Key ''cid'']") (auto simp del: py_path.simps)
  then obtain e where e: "get_movie_detail cid item = Inl e"
    by (auto simp: isl_def)
  from Tencent_handle_reply_fail [where get_movie_detail = get_movie_detail,
      OF c1 c2 c3 [unfolded v] i cid e] s r1 r2
  show ?thesis
    by (auto simp: Tencent_get_movies_def Let_def)
qed

lemma Tencent_set_page_3:
  "fst (Tencent_set_page 3 Tencent_payload) = None"
  by (simp add: Tencent_set_page_def Tencent_payload_def)

lemma Bilibili_enrichment_fails_demo:
  "Bilibili_enrichment_fails bilibili_page no_repr no_parse actors_but_8 film_entity 3 initial_shared"
  by (simp add: Bilibili_enrichment_fails_def bilibili_page_def film_item_def actors_but_8_def
      str_int_def nat_digits.simps Bilibili_create_movie_entity_def then_do_def)

lemma Tencent_enrichment_fails_demo:
  "Tencent_enrichment_fails tencent_page detail_but_b2 3 initial_shared"
  by (simp add: Tencent_enrichment_fails_def tencent_page_def tencent_card_def
      detail_but_b2_def Tencent_cards_def seq_position_def initial_shared_def
      Tencent_set_page_def Tencent_payload_def)

text \<open>
  C6. In the two adapters that fan out enrichment sub-requests, Bilibili and Tencent,
  the failure of the sub-request of any one item of the page makes the whole fetch
  raise: no list, partial or other, is returned. The run of the orchestrator ends with
  the same exception, and the only batch event it has recorded is the PENDING one.
\<close>

theorem enrichment_failure_fails_fetch:
  "(Bilibili_enrichment_fails get repr parse fetch_actors entity page (shared w) \<longrightarrow>
      (\<exists>e. fst (Bilibili_raw_fetch_async get repr parse fetch_actors entity page (shared w)) = Inl e \<and>
           fst (Bilibili_run_async get repr parse fetch_actors entity elapsed sink asdict page w) = Inl e \<and>
           map status (drop (length (batch_trace w))
             (batch_trace (snd (Bilibili_run_async get repr parse fetch_actors entity elapsed sink
                asdict page w)))) = [PENDING]))
   \<and> (Tencent_enrichment_fails post get_movie_detail page (shared w) \<longrightarrow>
      (\<exists>e. fst (Tencent_raw_fetch_async post get_movie_detail page (shared w)) = Inl e \<and>
           fst (Tencent_run_async post get_movie_detail elapsed sink asdict' page w) = Inl e \<and>
           map status (drop (length (batch_trace w))
             (batch_trace (snd (Tencent_run_async post get_movie_detail elapsed sink
                asdict' page w)))) = [PENDING]))"
proof (intro conjI impI)
  assume "Bilibili_enrichment_fails get repr parse fetch_actors entity page (shared w)"
  from Bilibili_fetch_fail [OF this] obtain e where
    e: "fst (Bilibili_raw_fetch_async get repr parse fetch_actors entity page (shared w)) = Inl e" ..
  let ?fetch = "\<lambda>x. case Bilibili_raw_fetch_async get repr parse fetch_actors entity page x of
               (r, x') \<Rightarrow> (r, x', elapsed)"
  from e have "fst (?fetch (shared w)) = Inl e"
    by (simp add: case_prod_beta)
  from run_failed_fetch [where fetch = ?fetch, OF this] e
  show "\<exists>e. fst (Bilibili_raw_fetch_async get repr parse fetch_actors entity page (shared w)) = Inl e \<and>
           fst (Bilibili_run_async get repr parse fetch_actors entity elapsed sink asdict page w) = Inl e \<and>
           map status (drop (length (batch_trace w))
             (batch_trace (snd (Bilibili_run_async get repr parse fetch_actors entity elapsed sink
                asdict page w)))) = [PENDING]"
    unfolding Bilibili_run_async_def by blast
next
  assume "Tencent_enrichment_fails post get_movie_detail page (shared w)"
  from Tencent_fetch_fail [OF this] obtain e where
    e: "fst (Tencent_raw_fetch_async post get_movie_detail page (shared w)) = Inl e"
    unfolding Tencent_raw_fetch_async_def ..
  let ?fetch = "\<lambda>x. case Tencent_raw_fetch_async post get_movie_detail page x of
               (r, x') \<Rightarrow> (r, x', elapsed)"
  from e have "fst (?fetch (shared w)) = Inl e"
    by (simp add: case_prod_beta)
  from run_failed_fetch [where fetch = ?fetch, OF this] e
  show "\<exists>e. fst (Tencent_raw_fetch_async post get_movie_detail page (shared w)) = Inl e \<and>
           fst (Tencent_run_async post get_movie_detail elapsed sink asdict' page w) = Inl e \<and>
           map status (drop (length (batch_trace w))
             (batch_trace (snd (Tencent_run_async post get_movie_detail elapsed sink
                asdict' page w)))) = [PENDING]"
    unfolding Tencent_run_async_def by blast
qed

theorem enrichment_failure_fails_fetch_witness:
  "Bilibili_enrichment_fails bilibili_page no_repr no_parse actors_but_8 film_entity 3
      (shared (initial_world initial_shared))
   \<and> (\<exists>e. fst (Bilibili_raw_fetch_async bilibili_page no_repr no_parse actors_but_8 film_entity 3
               (shared (initial_world initial_shared))) = Inl e \<and>
           fst (Bilibili_run_async bilibili_page no_repr no_parse actors_but_8 film_entity 1500 sink_acks
               film_asdict 3 (initial_world initial_shared)) = Inl e \<and>
           map status (drop (length (batch_trace (initial_world initial_shared)))
             (batch_trace (snd (Bilibili_run_async bilibili_page no_repr no_parse actors_but_8 film_entity
                1500 sink_acks film_asdict 3 (initial_world initial_shared))))) = [PENDING])
   \<and> Tencent_enrichment_fails tencent_page detail_but_b2 3 (shared (initial_world initial_shared))
   \<and> (\<exists>e. fst (Tencent_raw_fetch_async tencent_page detail_but_b2 3
               (shared (initial_world initial_shared))) = Inl e \<and>
           fst (Tencent_run_async tencent_page detail_but_b2 1500 sink_acks film_asdict 3
               (initial_world initial_shared)) = Inl e \<and>
           map status (drop (length (batch_trace (initial_world initial_shared)))
             (batch_trace (snd (Tencent_run_async tencent_page detail_but_b2 1500 sink_acks
                film_asdict 3 (initial_world initial_shared))))) = [PENDING])"
proof -
  have s: "shared (initial_world initial_shared) = initial_shared"
    by (simp add: initial_world_def)
  have b: "Bilibili_enrichment_fails bilibili_page no_repr no_parse actors_but_8 film_entity 3
             (shared (initial_world initial_shared))"
    using Bilibili_enrichment_fails_demo by (simp add: s)
  have t: "Tencent_enrichment_fails tencent_page detail_but_b2 3
             (shared (initial_world initial_shared))"
    using Tencent_enrichment_fails_demo by (simp add: s)
  from enrichment_failure_fails_fetch [where get = bilibili_page and repr = no_repr and parse = no_parse
      and fetch_actors = actors_but_8 and entity = film_entity and page = 3
      and w = "initial_world initial_shared" and elapsed = 1500 and sink = sink_acks
      and asdict = film_asdict and post = tencent_page and get_movie_detail = detail_but_b2
      and asdict' = film_asdict] b t
  show ?thesis by blast
qed

subsection \<open>A reply that is not a success\<close>

lemma py_getitem_ret_msg:
  assumes "py_getitem json_object (Key ''ret'') = Inr ret"
  shows "py_getitem json_object (Key ''msg'') = Inl KeyError \<or>
         (\<exists>msg. py_getitem json_object (Key ''msg'') = Inr msg)"
  using assms by (cases json_object) (auto split: option.splits)

text \<open>
  C4. The claim: in every adapter a reply that is not a success makes the fetch fail,
  and the fetch never completes with an empty result instead. The adapters differ, each
  by its own code. As amended: the Tencent fetch raises on a return code other than 0
  (ValueError, or KeyError when the reply carries no message); the Bilibili fetch
  answers a status other than 200 with the empty list, by its status check; and the
  Tencent and IQiYi fetches do not look at the HTTP status, their result being the same
  for every status of the same reply.
\<close>

theorem top_level_failure_handling:
  "(get (Bilibili_set_page page (bilibili_params x)) = Inr reply \<and> http_status reply \<noteq> 200 \<longrightarrow>
      fst (Bilibili_raw_fetch_async get repr parse fetch_actors entity page x) = Inr [])
   \<and> (Tencent_set_page page (tencent_payload x) = (None, payload) \<and>
      post payload = Inr reply' \<and> body reply' = Inr json_object \<and>
      py_getitem json_object (Key ''ret'') = Inr ret \<and> py_ne_zero ret \<longrightarrow>
      fst (Tencent_raw_fetch_async post get_movie_detail page x) =
        Inl (if isl (py_getitem json_object (Key ''msg'')) then KeyError else ValueError))
   \<and> fst (Tencent_raw_fetch_async (\<lambda>p. with_status s (post p)) get_movie_detail page x) =
      fst (Tencent_raw_fetch_async post get_movie_detail page x)
   \<and> fst (IQiYi_raw_fetch_async (\<lambda>q. with_status s (get' q)) parse' entity' page x) =
      fst (IQiYi_raw_fetch_async get' parse' entity' page x)"
proof (intro conjI impI)
  assume "get (Bilibili_set_page page (bilibili_params x)) = Inr reply \<and> http_status reply \<noteq> 200"
  then show "fst (Bilibili_raw_fetch_async get repr parse fetch_actors entity page x) = Inr []"
    by (simp add: Bilibili_raw_fetch_async_def Let_def)
next
  assume a: "Tencent_set_page page (tencent_payload x) = (None, payload) \<and>
      post payload = Inr reply' \<and> body reply' = Inr json_object \<and>
      py_getitem json_object (Key ''ret'') = Inr ret \<and> py_ne_zero ret"
  with py_getitem_ret_msg [of json_object ret]
  show "fst (Tencent_raw_fetch_async post get_movie_detail page x) =
        Inl (if isl (py_getitem json_object (Key ''msg'')) then KeyError else ValueError)"
    by (auto simp: Tencent_raw_fetch_async_def Tencent_get_movies_def Tencent_handle_reply_def
        Let_def)
next
  show "fst (Tencent_raw_fetch_async (\<lambda>p. with_status s (post p)) get_movie_detail page x) =
      fst (Tencent_raw_fetch_async post get_movie_detail page x)"
    by (auto simp: Tencent_raw_fetch_async_def Tencent_get_movies_def with_status_def Let_def
        split: sum.splits prod.splits option.splits)
next
  show "fst (IQiYi_raw_fetch_async (\<lambda>q. with_status s (get' q)) parse' entity' page x) =
      fst (IQiYi_raw_fetch_async get' parse' entity' page x)"
    by (auto simp: IQiYi_raw_fetch_async_def with_status_def Let_def
        split: sum.splits prod.splits option.splits)
qed

theorem top_level_failure_handling_witness:
  "bilibili_down (Bilibili_set_page 3 (bilibili_params initial_shared)) =
       Inr \<lparr>http_status = 500, body = Inl JSONDecodeError\<rparr>
   \<and> http_status \<lparr>http_status = 500, body = Inl JSONDecodeError\<rparr> \<noteq> 200
   \<and> fst (Bilibili_raw_fetch_async bilibili_down no_repr no_parse actors_but_8 film_entity 3 initial_shared)
       = Inr []
   \<and> Tencent_set_page 3 (tencent_payload initial_shared) =
       (None, snd (Tencent_set_page 3 Tencent_payload))
   \<and> tencent_refused (snd (Tencent_set_page 3 Tencent_payload)) =
       Inr \<lparr>http_status = 200,
            body = Inr (PyDict [(''ret'', PyInt 1001), (''msg'', PyStr ''refused'')])\<rparr>
   \<and> py_getitem (PyDict [(''ret'', PyInt 1001), (''msg'', PyStr ''refused'')]) (Key ''ret'')
       = Inr (PyInt 1001)
   \<and> py_ne_zero (PyInt 1001)
   \<and> fst (Tencent_raw_fetch_async tencent_refused detail_but_b2 3 initial_shared) = Inl ValueError"
proof -
  have b1: "bilibili_down (Bilibili_set_page 3 (bilibili_params initial_shared)) =
       Inr \<lparr>http_status = 500, body = Inl JSONDecodeError\<rparr>"
    by (simp add: bilibili_down_def)
  have b2: "http_status \<lparr>http_status = 500, body = Inl JSONDecodeError\<rparr> \<noteq> 200"
    by simp
  have t1: "Tencent_set_page 3 (tencent_payload initial_shared) =
       (None, snd (Tencent_set_page 3 Tencent_payload))"
    using Tencent_set_page_3 by (simp add: initial_shared_def prod_eq_iff)
  have t2: "tencent_refused (snd (Tencent_set_page 3 Tencent_payload)) =
       Inr \<lparr>http_status = 200,
            body = Inr (PyDict [(''ret'', PyInt 1001), (''msg'', PyStr ''refused'')])\<rparr>"
    by (simp add: tencent_refused_def)
  have t3: "py_getitem (PyDict [(''ret'', PyInt 1001), (''msg'', PyStr ''refused'')]) (Key ''ret'')
       = Inr (PyInt 1001)"
    by simp
  have t4: "py_ne_zero (PyInt 1001)" by simp
  from top_level_failure_handling [where get = bilibili_down and page = 3
      and x = initial_shared and reply = "\<lparr>http_status = 500, body = Inl JSONDecodeError\<rparr>"
      and repr = no_repr and parse = no_parse and fetch_actors = actors_but_8 and entity = film_entity
      and payload = "snd (Tencent_set_page 3 Tencent_payload)" and post = tencent_refused
      and reply' = "\<lparr>http_status = 200,
            body = Inr (PyDict [(''ret'', PyInt 1001), (''msg'', PyStr ''refused'')])\<rparr>"
      and json_object = "PyDict [(''ret'', PyInt 1001), (''msg'', PyStr ''refused'')]"
      and ret = "PyInt 1001" and get_movie_detail = detail_but_b2 and s = 200
      and get' = bilibili_down and parse' = no_parse and entity' = q_title]
    b1 b2 t1 t2 t3 t4
  show ?thesis by simp
qed

text \<open>
  A source that answers page 3 with status 500: the Bilibili fetch completes normally,
  with the empty list.
\<close>

theorem non_200_gives_empty_list:
  "fst (Bilibili_raw_fetch_async bilibili_down no_repr no_parse actors_but_8 film_entity 3 initial_shared)
     = Inr []"
  by (simp add: Bilibili_raw_fetch_async_def bilibili_down_def Let_def)

subsection \<open>The shared request configuration\<close>



end
